theory Spec2Isabelle
  imports Complex_Main
begin

section \<open>The narrative service of mybot/narrative/narrative_service.py\<close>

text \<open>
  A shallow embedding of \<^verbatim>\<open>NarrativeService\<close>: the four transition operations
  \<^verbatim>\<open>start_story\<close>, \<^verbatim>\<open>make_choice\<close>, \<^verbatim>\<open>navigate_next\<close> and \<^verbatim>\<open>go_back\<close>, with
  \<^verbatim>\<open>initialize_user_narrative\<close> and the private helpers they call.

  Conventions of the embedding.
  \<^item> The store behind the SQLAlchemy session is the record \<open>world\<close>. Every operation
    takes the world and returns an outcome together with the world it leaves behind.
    The objects an operation loads and mutates before \<^verbatim>\<open>session.commit()\<close> are local
    values of the model; the \<open>states\<close> and \<open>decisions\<close> tables change at the commit only.
    In-place changes of the JSON columns (the visited list, the flags, the scores) are
    taken to be tracked by the session, so that the commit writes the object as the
    operation left it.
  \<^item> Calls to collaborators whose bodies lie outside the source (points, metrics,
    checkpoints, achievements, lore) are recorded, in call order, in the \<open>trace\<close> of the
    world, and so is every commit. They are taken to return normally.
  \<^item> A Python exception that leaves an operation is the outcome \<open>Raised\<close>; a returned
    tuple \<^verbatim>\<open>(success, message, fragment)\<close> is the outcome \<open>Returned\<close>.
  \<^item> \<^verbatim>\<open>StoryManager\<close>, \<^verbatim>\<open>NARRATIVE_POINTS\<close> and the column defaults of the ORM
    models are not part of the source that is modelled; they are parameters, collected
    in the records \<open>story_manager\<close> and \<open>narrative_service\<close>.
  \<^item> Record fields carry a short prefix of their class (\<open>f_\<close> fragment, \<open>c_\<close> choice,
    \<open>e_\<close> effects, \<open>r_\<close> rewards, \<open>d_\<close> decision, \<open>ud_\<close> user data) since field names are
    global; private methods lose their leading underscore.
\<close>

subsection \<open>Data\<close>

text \<open>The values of \<^verbatim>\<open>Dict[str, Any]\<close> columns and requirement sets: JSON-like data.\<close>

datatype json =
    JNull
  | JBool bool
  | JInt int
  | JStr string
  | JList "json list"
  | JDict "(string \<times> json) list"

type_synonym requirements = "(string \<times> json) list"

text \<open>\<^verbatim>\<open>choice.effects\<close>: a dictionary read through the four keys below; \<open>None\<close> in a
  field means that the key is absent. An empty dictionary, for which \<^verbatim>\<open>make_choice\<close> skips
  \<^verbatim>\<open>_apply_choice_effects\<close>, is the record of four absent keys, which that function leaves
  without any effect.\<close>

record effects =
  e_relationships :: "(string \<times> int) list option"
  e_story_flags :: "(string \<times> json) list option"
  e_items :: "string list option"
  e_points :: "int option"

text \<open>\<^verbatim>\<open>fragment.rewards\<close>: an object probed with \<^verbatim>\<open>hasattr\<close>; \<open>None\<close> in a field means
  that the attribute is absent.\<close>

record rewards =
  r_points :: "int option"
  r_achievements :: "string list option"
  r_lore_pieces :: "string list option"
  r_unlock_fragments :: "string list option"

record choice =
  c_text :: string
  c_next_fragment :: string
  c_requirements :: "requirements option"
  c_effects :: "effects option"

record fragment =
  f_id :: string
  f_chapter :: int
  f_type :: string
  f_title :: string
  f_next_fragment :: "string option"
  f_requirements :: "requirements option"
  f_rewards :: "rewards option"

record story =
  s_title :: string
  requires_vip :: bool

record user =
  role :: string
  level :: int
  points :: int

record user_narrative_state =
  user_id :: int
  active_story :: "string option"
  current_fragment_id :: "string option"
  current_chapter :: int
  fragments_visited :: "string list"
  story_flags :: "string \<rightharpoonup> json"
  relationship_scores :: "string \<rightharpoonup> int"
  total_decisions_made :: int
  story_completion_percent :: rat
  vip_story_unlocked :: bool
  started_at :: nat
  last_interaction_at :: nat

text \<open>A \<^verbatim>\<open>UserDecision\<close> row. \<open>points_gained\<close> and \<open>items_gained\<close> are \<open>None\<close> where the
  code leaves the column to its default.\<close>

record user_decision =
  d_user_id :: int
  d_fragment_id :: "string option"
  d_choice_id :: string
  d_choice_text :: string
  d_chapter :: int
  points_gained :: "int option"
  items_gained :: "string list option"

record user_data =
  ud_level :: int
  ud_points :: int
  ud_items :: "string list"
  ud_achievements :: "string list"
  ud_story_flags :: "string \<rightharpoonup> json"

text \<open>The methods of \<^verbatim>\<open>StoryManager\<close> that the service calls. The story and fragment
  arguments are optional where the service passes nullable columns.\<close>

record story_manager =
  get_story :: "string \<Rightarrow> story option"
  get_starting_fragment :: "string \<Rightarrow> fragment option"
  get_fragment :: "string option \<Rightarrow> string option \<Rightarrow> fragment option"
  validate_choice :: "string option \<Rightarrow> string option \<Rightarrow> string \<Rightarrow> choice option"
  check_requirements :: "requirements \<Rightarrow> user_data \<Rightarrow> bool \<times> string list"
  calculate_completion_percent :: "string option \<Rightarrow> string list \<Rightarrow> rat"

text \<open>The service: its story manager, the constant table \<^verbatim>\<open>NARRATIVE_POINTS\<close>, the
  values the ORM gives to the columns that \<^verbatim>\<open>initialize_user_narrative\<close> does not set,
  and the effect on the flags of the last branch of \<^verbatim>\<open>_process_fragment_rewards\<close>
  (unlocking hidden fragments), whose text ends inside that branch.\<close>

record narrative_service =
  the_story_manager :: story_manager
  NARRATIVE_POINTS :: "string \<Rightarrow> int"
  column_defaults :: user_narrative_state
  mark_discovered :: "(string \<rightharpoonup> json) \<Rightarrow> string list \<Rightarrow> (string \<rightharpoonup> json)"

text \<open>What happens outside the two tables, in the order of the calls.\<close>

datatype event =
    Commit
  | GiveNarrativePoints int int
  | RecordFragmentVisit string
  | RecordChoiceMetric "string option" string
  | CreateCheckpoint int user_narrative_state
  | CheckAndAwardAchievement int string
  | UnlockLorePiece int string

record world =
  users :: "int \<rightharpoonup> user"
  user_achievements :: "int \<Rightarrow> string list"
  states :: "int \<rightharpoonup> user_narrative_state"
  decisions :: "user_decision list"
  trace :: "event list"

text \<open>The messages of the result tuples, one constructor for each literal of the source:
  \<^item> \<open>Historia_no_encontrada\<close>: "Historia no encontrada"
  \<^item> \<open>Requiere_suscripcion_VIP\<close>: "Esta historia requiere suscripcion VIP"
  \<^item> \<open>Error_al_cargar_la_historia\<close>: "Error al cargar la historia"
  \<^item> \<open>Historia_iniciada t\<close>: "Historia 't' iniciada"
  \<^item> \<open>No_tienes_una_historia_activa\<close>: "No tienes una historia activa"
  \<^item> \<open>Error_al_cargar_el_fragmento_actual\<close>: "Error al cargar el fragmento actual"
  \<^item> \<open>Opcion_no_valida\<close>: "Opcion no valida"
  \<^item> \<open>No_cumples_los_requisitos missing\<close>: "No cumples los requisitos:" followed by one
    bulleted line for each entry of \<open>missing\<close>
  \<^item> \<open>Error_al_cargar_el_siguiente_fragmento\<close>: "Error al cargar el siguiente fragmento"
  \<^item> \<open>Decision_registrada\<close>: "Decision registrada"
  \<^item> \<open>No_hay_siguiente_fragmento\<close>: "No hay siguiente fragmento"
  \<^item> \<open>Continuando_historia\<close>: "Continuando historia"
  \<^item> \<open>No_puedes_retroceder_mas\<close>: "No puedes retroceder mas"
  \<^item> \<open>Ya_estas_en_el_inicio\<close>: "Ya estas en el inicio"
  \<^item> \<open>Error_al_cargar_fragmento_anterior\<close>: "Error al cargar fragmento anterior"
  \<^item> \<open>Has_retrocedido\<close>: "Has retrocedido"
\<close>

datatype message =
    Historia_no_encontrada
  | Requiere_suscripcion_VIP
  | Error_al_cargar_la_historia
  | Historia_iniciada string
  | No_tienes_una_historia_activa
  | Error_al_cargar_el_fragmento_actual
  | Opcion_no_valida
  | No_cumples_los_requisitos "string list"
  | Error_al_cargar_el_siguiente_fragmento
  | Decision_registrada
  | No_hay_siguiente_fragmento
  | Continuando_historia
  | No_puedes_retroceder_mas
  | Ya_estas_en_el_inicio
  | Error_al_cargar_fragmento_anterior
  | Has_retrocedido

datatype py_exception = AttributeError | ValueError | IntegrityError

datatype outcome =
    Returned bool message "fragment option"
  | Raised py_exception

subsection \<open>The session and the collaborators\<close>

definition commit :: "world \<Rightarrow> world" where
  "commit w = w\<lparr>trace := trace w @ [Commit]\<rparr>"

definition give_narrative_points :: "int \<Rightarrow> int \<Rightarrow> world \<Rightarrow> world" where
  "give_narrative_points uid amount w = w\<lparr>trace := trace w @ [GiveNarrativePoints uid amount]\<rparr>"

definition record_fragment_visit :: "string \<Rightarrow> world \<Rightarrow> world" where
  "record_fragment_visit fid w = w\<lparr>trace := trace w @ [RecordFragmentVisit fid]\<rparr>"

definition record_choice_metric :: "string option \<Rightarrow> string \<Rightarrow> world \<Rightarrow> world" where
  "record_choice_metric fid cid w = w\<lparr>trace := trace w @ [RecordChoiceMetric fid cid]\<rparr>"

definition create_checkpoint :: "int \<Rightarrow> user_narrative_state \<Rightarrow> world \<Rightarrow> world" where
  "create_checkpoint uid st w = w\<lparr>trace := trace w @ [CreateCheckpoint uid st]\<rparr>"

definition check_and_award_achievement :: "int \<Rightarrow> string \<Rightarrow> world \<Rightarrow> world" where
  "check_and_award_achievement uid a w = w\<lparr>trace := trace w @ [CheckAndAwardAchievement uid a]\<rparr>"

definition unlock_lore_piece :: "int \<Rightarrow> string \<Rightarrow> world \<Rightarrow> world" where
  "unlock_lore_piece uid c w = w\<lparr>trace := trace w @ [UnlockLorePiece uid c]\<rparr>"

text \<open>\<^verbatim>\<open>get_user_state\<close>: the row of the user, or \<open>None\<close>.\<close>

definition get_user_state :: "world \<Rightarrow> int \<Rightarrow> user_narrative_state option" where
  "get_user_state w uid = states w uid"

subsection \<open>initialize_user_narrative\<close>

definition new_user_state :: "narrative_service \<Rightarrow> int \<Rightarrow> user_narrative_state" where
  "new_user_state sv uid =
     (column_defaults sv)\<lparr>
        user_id := uid,
        current_fragment_id := None,
        fragments_visited := [],
        story_flags :=
          [''first_time'' \<mapsto> JBool True, ''lucien_relationship'' \<mapsto> JInt 0,
           ''diana_relationship'' \<mapsto> JInt 0, ''secrets_discovered'' \<mapsto> JInt 0],
        relationship_scores := [''lucien'' \<mapsto> 0, ''diana'' \<mapsto> 0]\<rparr>"

text \<open>The state is added to the session and committed. \<^verbatim>\<open>user_id\<close> is the primary key
  of the table (the row is fetched with \<^verbatim>\<open>session.get(UserNarrativeState, user_id)\<close>), so
  the commit of a second row for the same user fails and leaves the table as it was.\<close>

definition initialize_user_narrative ::
  "narrative_service \<Rightarrow> int \<Rightarrow> world \<Rightarrow> (py_exception + user_narrative_state) \<times> world" where
  "initialize_user_narrative sv uid w =
     (case states w uid of
        Some old \<Rightarrow> (Inl IntegrityError, w)
      | None \<Rightarrow>
          (let state = new_user_state sv uid
           in (Inr state, commit (w\<lparr>states := (states w)(uid \<mapsto> state)\<rparr>))))"

subsection \<open>start_story\<close>

definition start_story ::
  "narrative_service \<Rightarrow> int \<Rightarrow> string \<Rightarrow> world \<Rightarrow> outcome \<times> world" where
  "start_story sv uid story_id w =
     (case get_story (the_story_manager sv) story_id of
        None \<Rightarrow> (Returned False Historia_no_encontrada None, w)
      | Some story \<Rightarrow>
          (case (case get_user_state w uid of
                   None \<Rightarrow> initialize_user_narrative sv uid w
                 | Some st \<Rightarrow> (Inr st, w)) of
             (Inl e, w1) \<Rightarrow> (Raised e, w1)
           | (Inr state, w1) \<Rightarrow>
               (case (if requires_vip story
                      then (case users w1 uid of
                              None \<Rightarrow> Inl AttributeError
                            | Some u \<Rightarrow> Inr (role u \<noteq> ''vip''))
                      else Inr False) of
                  Inl e \<Rightarrow> (Raised e, w1)
                | Inr True \<Rightarrow> (Returned False Requiere_suscripcion_VIP None, w1)
                | Inr False \<Rightarrow>
                    (case get_starting_fragment (the_story_manager sv) story_id of
                       None \<Rightarrow> (Returned False Error_al_cargar_la_historia None, w1)
                     | Some starting_fragment \<Rightarrow>
                         (let state1 = state\<lparr>
                                active_story := Some story_id,
                                current_fragment_id := Some (f_id starting_fragment),
                                current_chapter := f_chapter starting_fragment,
                                fragments_visited := [f_id starting_fragment],
                                story_completion_percent := 0\<rparr>;
                              state2 = (if story_id = ''vip''
                                        then state1\<lparr>vip_story_unlocked := True\<rparr>
                                        else state1);
                              w2 = commit (w1\<lparr>states := (states w1)(uid \<mapsto> state2)\<rparr>);
                              w3 = record_fragment_visit (f_id starting_fragment) w2;
                              w4 = give_narrative_points uid
                                     (NARRATIVE_POINTS sv ''fragment_read'') w3
                          in (Returned True (Historia_iniciada (s_title story))
                                (Some starting_fragment), w4))))))"

subsection \<open>The private helpers\<close>

text \<open>\<^verbatim>\<open>_get_user_data_for_requirements\<close>: a missing \<^verbatim>\<open>User\<close> row gives level 1 and no
  points; the inventory is empty.\<close>

definition get_user_data_for_requirements :: "int \<Rightarrow> world \<Rightarrow> user_data" where
  "get_user_data_for_requirements uid w =
     \<lparr>ud_level = (case users w uid of Some u \<Rightarrow> level u | None \<Rightarrow> 1),
      ud_points = (case users w uid of Some u \<Rightarrow> points u | None \<Rightarrow> 0),
      ud_items = [],
      ud_achievements = user_achievements w uid,
      ud_story_flags = (case get_user_state w uid of
                          Some st \<Rightarrow> story_flags st
                        | None \<Rightarrow> Map.empty)\<rparr>"

text \<open>The loop over \<^verbatim>\<open>effects["relationships"].items()\<close>, and \<^verbatim>\<open>dict.update\<close>.\<close>

definition apply_relationships ::
  "(string \<times> int) list \<Rightarrow> (string \<rightharpoonup> int) \<Rightarrow> (string \<rightharpoonup> int)" where
  "apply_relationships changes scores =
     fold (\<lambda>(character, change) m.
             m(character \<mapsto> (case m character of None \<Rightarrow> 0 | Some current \<Rightarrow> current) + change))
          changes scores"

definition dict_update :: "(string \<times> json) list \<Rightarrow> (string \<rightharpoonup> json) \<Rightarrow> (string \<rightharpoonup> json)" where
  "dict_update kvs m = fold (\<lambda>(k, v) m'. m'(k \<mapsto> v)) kvs m"

text \<open>\<^verbatim>\<open>_apply_choice_effects\<close>. The state it fetches is the object \<^verbatim>\<open>make_choice\<close> holds,
  passed here as \<open>state\<close>; the points of the effects go to the points collaborator at
  once.\<close>

definition apply_choice_effects ::
  "int \<Rightarrow> effects \<Rightarrow> user_decision \<Rightarrow> user_narrative_state \<Rightarrow> world
     \<Rightarrow> user_narrative_state \<times> user_decision \<times> world" where
  "apply_choice_effects uid eff decision state w =
     (let state1 = (case e_relationships eff of
                      Some changes \<Rightarrow>
                        state\<lparr>relationship_scores :=
                                apply_relationships changes (relationship_scores state)\<rparr>
                    | None \<Rightarrow> state);
          state2 = (case e_story_flags eff of
                      Some kvs \<Rightarrow> state1\<lparr>story_flags := dict_update kvs (story_flags state1)\<rparr>
                    | None \<Rightarrow> state1);
          decision1 = (case e_items eff of
                         Some its \<Rightarrow> decision\<lparr>items_gained := Some its\<rparr>
                       | None \<Rightarrow> decision)
      in (case e_points eff of
            Some p \<Rightarrow> (state2, decision1\<lparr>points_gained := Some p\<rparr>, give_narrative_points uid p w)
          | None \<Rightarrow> (state2, decision1, w)))"

text \<open>\<^verbatim>\<open>_process_fragment_rewards\<close>. The state it fetches for the unlocked fragments is
  the object its caller holds, passed here as \<open>state\<close>.\<close>

definition process_fragment_rewards ::
  "narrative_service \<Rightarrow> int \<Rightarrow> fragment \<Rightarrow> user_narrative_state \<Rightarrow> world
     \<Rightarrow> user_narrative_state \<times> world" where
  "process_fragment_rewards sv uid fragment state w =
     (case f_rewards fragment of
        None \<Rightarrow> (state, w)
      | Some rw \<Rightarrow>
          (let w1 = (case r_points rw of
                       Some p \<Rightarrow> if p > 0 then give_narrative_points uid p w else w
                     | None \<Rightarrow> w);
               w2 = (case r_achievements rw of
                       Some as \<Rightarrow> fold (check_and_award_achievement uid) as w1
                     | None \<Rightarrow> w1);
               w3 = (case r_lore_pieces rw of
                       Some cs \<Rightarrow> fold (unlock_lore_piece uid) cs w2
                     | None \<Rightarrow> w2);
               state1 = (case r_unlock_fragments rw of
                           Some fs \<Rightarrow>
                             state\<lparr>story_flags := mark_discovered sv (story_flags state) fs\<rparr>
                         | None \<Rightarrow> state)
           in (state1, w3)))"

subsection \<open>make_choice\<close>

definition make_choice ::
  "narrative_service \<Rightarrow> int \<Rightarrow> string \<Rightarrow> nat \<Rightarrow> world \<Rightarrow> outcome \<times> world" where
  "make_choice sv uid choice_id now w =
     (case get_user_state w uid of
        None \<Rightarrow> (Returned False No_tienes_una_historia_activa None, w)
      | Some state \<Rightarrow>
     (case get_fragment (the_story_manager sv) (active_story state) (current_fragment_id state) of
        None \<Rightarrow> (Returned False Error_al_cargar_el_fragmento_actual None, w)
      | Some current_fragment \<Rightarrow>
     (case validate_choice (the_story_manager sv)
             (active_story state) (current_fragment_id state) choice_id of
        None \<Rightarrow> (Returned False Opcion_no_valida None, w)
      | Some choice \<Rightarrow>
     (case check_requirements (the_story_manager sv)
             (case c_requirements choice of Some r \<Rightarrow> r | None \<Rightarrow> [])
             (get_user_data_for_requirements uid w) of
        (can_choose, missing) \<Rightarrow>
     if \<not> can_choose then (Returned False (No_cumples_los_requisitos missing) None, w)
     else
     (case get_fragment (the_story_manager sv) (active_story state)
             (Some (c_next_fragment choice)) of
        None \<Rightarrow> (Returned False Error_al_cargar_el_siguiente_fragmento None, w)
      | Some next_fragment \<Rightarrow>
     (let decision = \<lparr>d_user_id = uid,
                      d_fragment_id = current_fragment_id state,
                      d_choice_id = choice_id,
                      d_choice_text = c_text choice,
                      d_chapter = f_chapter current_fragment,
                      points_gained = None,
                      items_gained = None\<rparr>
      in
     (case (case c_effects choice of
              Some eff \<Rightarrow> apply_choice_effects uid eff decision state w
            | None \<Rightarrow> (state, decision, w)) of
        (state1, decision1, w1) \<Rightarrow>
     (let state2 = state1\<lparr>current_fragment_id := Some (f_id next_fragment),
                           current_chapter := f_chapter next_fragment\<rparr>;
          state2a = (if f_id next_fragment \<notin> set (fragments_visited state2)
                     then state2\<lparr>fragments_visited :=
                                    fragments_visited state2 @ [f_id next_fragment]\<rparr>
                     else state2);
          state3 = state2a\<lparr>total_decisions_made := total_decisions_made state2a + 1,
                            last_interaction_at := now\<rparr>;
          w2 = (if f_type next_fragment = ''checkpoint''
                then create_checkpoint uid state3 w1 else w1)
      in
     (case (case f_rewards next_fragment of
              Some rw \<Rightarrow> process_fragment_rewards sv uid next_fragment state3 w2
            | None \<Rightarrow> (state3, w2)) of
        (state4, w3) \<Rightarrow>
     (let state5 = state4\<lparr>story_completion_percent :=
                             calculate_completion_percent (the_story_manager sv)
                               (active_story state4) (fragments_visited state4)\<rparr>;
          w4 = commit (w3\<lparr>states := (states w3)(uid \<mapsto> state5),
                          decisions := decisions w3 @ [decision1]\<rparr>);
          w5 = record_fragment_visit (f_id next_fragment) w4;
          w6 = record_choice_metric (current_fragment_id state5) choice_id w5;
          w7 = give_narrative_points uid (NARRATIVE_POINTS sv ''decision_made'') w6
      in (Returned True Decision_registrada (Some next_fragment), w7)))))))))))"

subsection \<open>navigate_next\<close>

text \<open>\<^verbatim>\<open>not current_fragment.next_fragment\<close> holds for \<^verbatim>\<open>None\<close> and for the empty string.\<close>

definition navigate_next ::
  "narrative_service \<Rightarrow> int \<Rightarrow> nat \<Rightarrow> world \<Rightarrow> outcome \<times> world" where
  "navigate_next sv uid now w =
     (case get_user_state w uid of
        None \<Rightarrow> (Returned False No_tienes_una_historia_activa None, w)
      | Some state \<Rightarrow>
     (case get_fragment (the_story_manager sv) (active_story state) (current_fragment_id state) of
        None \<Rightarrow> (Returned False No_hay_siguiente_fragmento None, w)
      | Some current_fragment \<Rightarrow>
     if f_next_fragment current_fragment = None \<or> f_next_fragment current_fragment = Some []
     then (Returned False No_hay_siguiente_fragmento None, w)
     else
     (case get_fragment (the_story_manager sv) (active_story state)
             (f_next_fragment current_fragment) of
        None \<Rightarrow> (Returned False Error_al_cargar_el_siguiente_fragmento None, w)
      | Some next_fragment \<Rightarrow>
     (case check_requirements (the_story_manager sv)
             (case f_requirements next_fragment of Some r \<Rightarrow> r | None \<Rightarrow> [])
             (get_user_data_for_requirements uid w) of
        (can_access, missing) \<Rightarrow>
     if \<not> can_access then (Returned False (No_cumples_los_requisitos missing) None, w)
     else
     (let state1 = state\<lparr>current_fragment_id := Some (f_id next_fragment),
                          current_chapter := f_chapter next_fragment\<rparr>;
          state1a = (if f_id next_fragment \<notin> set (fragments_visited state1)
                     then state1\<lparr>fragments_visited :=
                                    fragments_visited state1 @ [f_id next_fragment]\<rparr>
                     else state1);
          state2 = state1a\<lparr>last_interaction_at := now\<rparr>
      in
     (case (case f_rewards next_fragment of
              Some rw \<Rightarrow> process_fragment_rewards sv uid next_fragment state2 w
            | None \<Rightarrow> (state2, w)) of
        (state3, w1) \<Rightarrow>
     (let state4 = state3\<lparr>story_completion_percent :=
                             calculate_completion_percent (the_story_manager sv)
                               (active_story state3) (fragments_visited state3)\<rparr>;
          w2 = commit (w1\<lparr>states := (states w1)(uid \<mapsto> state4)\<rparr>);
          w3 = record_fragment_visit (f_id next_fragment) w2;
          w4 = give_narrative_points uid (NARRATIVE_POINTS sv ''fragment_read'') w3
      in (Returned True Continuando_historia (Some next_fragment), w4))))))))"

subsection \<open>go_back\<close>

text \<open>\<^verbatim>\<open>list.index\<close>: the position of the first occurrence; \<open>None\<close> where Python raises
  \<^verbatim>\<open>ValueError\<close>.\<close>

fun index_of :: "'a list \<Rightarrow> 'a \<Rightarrow> nat option" where
  "index_of [] y = None"
| "index_of (x # xs) y = (if x = y then Some 0 else map_option Suc (index_of xs y))"

text \<open>The visited list holds fragment ids, so the lookup of a null cursor finds nothing.\<close>

definition go_back ::
  "narrative_service \<Rightarrow> int \<Rightarrow> nat \<Rightarrow> world \<Rightarrow> outcome \<times> world" where
  "go_back sv uid now w =
     (case get_user_state w uid of
        None \<Rightarrow> (Returned False No_puedes_retroceder_mas None, w)
      | Some state \<Rightarrow>
     if length (fragments_visited state) \<le> 1
     then (Returned False No_puedes_retroceder_mas None, w)
     else
     (case (case current_fragment_id state of
              None \<Rightarrow> None
            | Some c \<Rightarrow> index_of (fragments_visited state) c) of
        None \<Rightarrow> (Raised ValueError, w)
      | Some current_index \<Rightarrow>
     if current_index \<le> 0 then (Returned False Ya_estas_en_el_inicio None, w)
     else
     (let previous_fragment_id = fragments_visited state ! (current_index - 1)
      in
     (case get_fragment (the_story_manager sv) (active_story state)
             (Some previous_fragment_id) of
        None \<Rightarrow> (Returned False Error_al_cargar_fragmento_anterior None, w)
      | Some previous_fragment \<Rightarrow>
     (let state1 = state\<lparr>current_fragment_id := Some previous_fragment_id,
                         current_chapter := f_chapter previous_fragment,
                         last_interaction_at := now\<rparr>;
          w1 = commit (w\<lparr>states := (states w)(uid \<mapsto> state1)\<rparr>)
      in (Returned True Has_retrocedido (Some previous_fragment), w1))))))"

subsection \<open>Collaborator calls of one transition\<close>

text \<open>The calls that \<^verbatim>\<open>_apply_choice_effects\<close> and \<^verbatim>\<open>_process_fragment_rewards\<close> make, and
  with them everything \<^verbatim>\<open>make_choice\<close> calls before its commit: the points of the effects,
  the checkpoint (with the state it is given), the rewards of the fragment entered.\<close>

definition effects_events :: "int \<Rightarrow> effects \<Rightarrow> event list" where
  "effects_events uid eff =
     (case e_points eff of Some p \<Rightarrow> [GiveNarrativePoints uid p] | None \<Rightarrow> [])"

definition rewards_events :: "int \<Rightarrow> rewards \<Rightarrow> event list" where
  "rewards_events uid rw =
     (case r_points rw of
        Some p \<Rightarrow> if p > 0 then [GiveNarrativePoints uid p] else []
      | None \<Rightarrow> [])
     @ (case r_achievements rw of
          Some as \<Rightarrow> map (CheckAndAwardAchievement uid) as
        | None \<Rightarrow> [])
     @ (case r_lore_pieces rw of Some cs \<Rightarrow> map (UnlockLorePiece uid) cs | None \<Rightarrow> [])"

definition pre_commit_events ::
  "int \<Rightarrow> choice \<Rightarrow> fragment \<Rightarrow> user_narrative_state \<Rightarrow> event list" where
  "pre_commit_events uid ch nf snap =
     (case c_effects ch of Some eff \<Rightarrow> effects_events uid eff | None \<Rightarrow> [])
     @ (if f_type nf = ''checkpoint'' then [CreateCheckpoint uid snap] else [])
     @ (case f_rewards nf of Some rw \<Rightarrow> rewards_events uid rw | None \<Rightarrow> [])"

text \<open>The state after the two steps that \<^verbatim>\<open>make_choice\<close> and \<^verbatim>\<open>navigate_next\<close> both
  take: move the cursor, and append the fragment to the visited list if it is not in it.\<close>

definition enter_fragment :: "fragment \<Rightarrow> user_narrative_state \<Rightarrow> user_narrative_state" where
  "enter_fragment next_fragment state =
     (let state1 = state\<lparr>current_fragment_id := Some (f_id next_fragment),
                          current_chapter := f_chapter next_fragment\<rparr>
      in if f_id next_fragment \<notin> set (fragments_visited state1)
         then state1\<lparr>fragments_visited := fragments_visited state1 @ [f_id next_fragment]\<rparr>
         else state1)"

fun is_metric :: "event \<Rightarrow> bool" where
  "is_metric (RecordFragmentVisit fid) = True"
| "is_metric (RecordChoiceMetric fid cid) = True"
| "is_metric e = False"

fun is_checkpoint_save :: "event \<Rightarrow> bool" where
  "is_checkpoint_save (CreateCheckpoint uid st) = True"
| "is_checkpoint_save e = False"

subsection \<open>Invariants and reachable worlds\<close>

text \<open>The cursor, when set, is in the visited list; a visited list that is not empty has
  a cursor; the visited list has no duplicates.\<close>

definition cursor_tracked :: "user_narrative_state \<Rightarrow> bool" where
  "cursor_tracked st =
     (case current_fragment_id st of
        None \<Rightarrow> True
      | Some c \<Rightarrow> c \<in> set (fragments_visited st))"

definition history_anchored :: "user_narrative_state \<Rightarrow> bool" where
  "history_anchored st =
     (case current_fragment_id st of
        None \<Rightarrow> fragments_visited st = []
      | Some c \<Rightarrow> True)"

definition cursor_in_history :: "world \<Rightarrow> bool" where
  "cursor_in_history w = (\<forall>uid st. states w uid = Some st \<longrightarrow> cursor_tracked st)"

definition histories_anchored :: "world \<Rightarrow> bool" where
  "histories_anchored w = (\<forall>uid st. states w uid = Some st \<longrightarrow> history_anchored st)"

definition histories_distinct :: "world \<Rightarrow> bool" where
  "histories_distinct w =
     (\<forall>uid st. states w uid = Some st \<longrightarrow> distinct (fragments_visited st))"

text \<open>The worlds the service can be in: it starts with no narrative state and no decision;
  every operation may be called with any arguments; the user table and the achievements
  belong to other parts of the bot and may change between two calls.\<close>

inductive reachable :: "narrative_service \<Rightarrow> world \<Rightarrow> bool" for sv :: narrative_service where
  initial: "states w = Map.empty \<Longrightarrow> decisions w = [] \<Longrightarrow> reachable sv w"
| external: "reachable sv w \<Longrightarrow> reachable sv (w\<lparr>users := us, user_achievements := ua\<rparr>)"
| by_initialize: "reachable sv w \<Longrightarrow> reachable sv (snd (initialize_user_narrative sv uid w))"
| by_start_story: "reachable sv w \<Longrightarrow> reachable sv (snd (start_story sv uid story_id w))"
| by_make_choice: "reachable sv w \<Longrightarrow> reachable sv (snd (make_choice sv uid choice_id now w))"
| by_navigate_next: "reachable sv w \<Longrightarrow> reachable sv (snd (navigate_next sv uid now w))"
| by_go_back: "reachable sv w \<Longrightarrow> reachable sv (snd (go_back sv uid now w))"

subsection \<open>A small story, for concrete runs\<close>

text \<open>The story "free" of four fragments: the decision \<open>f1\<close> with the choices \<open>c1\<close> (to
  \<open>f2\<close>, granting 5 points), \<open>c2\<close> (to \<open>f2\<close>, for level 5 and above) and \<open>c3\<close> (straight
  to \<open>f3\<close>), the narrative fragment \<open>f2\<close>, followed by the checkpoint \<open>f3\<close>, followed by
  the ending \<open>f4\<close>, which only level 5 may enter. The story "vip" needs a VIP role. User 1
  is a level 1 user with the role "free"; there is no user 2.\<close>

definition ex_c1 :: choice where
  "ex_c1 = \<lparr>c_text = ''Go'', c_next_fragment = ''f2'', c_requirements = None,
            c_effects = Some \<lparr>e_relationships = None, e_story_flags = None,
                               e_items = None, e_points = Some 5\<rparr>\<rparr>"

definition ex_c2 :: choice where
  "ex_c2 = \<lparr>c_text = ''Hard'', c_next_fragment = ''f2'',
            c_requirements = Some [(''level'', JInt 5)], c_effects = None\<rparr>"

definition ex_c3 :: choice where
  "ex_c3 = \<lparr>c_text = ''Rest'', c_next_fragment = ''f3'', c_requirements = None,
            c_effects = None\<rparr>"

definition ex_f1 :: fragment where
  "ex_f1 = \<lparr>f_id = ''f1'', f_chapter = 1, f_type = ''decision'', f_title = ''Start'',
            f_next_fragment = None, f_requirements = None, f_rewards = None\<rparr>"

definition ex_f2 :: fragment where
  "ex_f2 = \<lparr>f_id = ''f2'', f_chapter = 1, f_type = ''narrative'', f_title = ''Middle'',
            f_next_fragment = Some ''f3'', f_requirements = None, f_rewards = None\<rparr>"

definition ex_f3 :: fragment where
  "ex_f3 = \<lparr>f_id = ''f3'', f_chapter = 2, f_type = ''checkpoint'', f_title = ''Camp'',
            f_next_fragment = Some ''f4'', f_requirements = None, f_rewards = None\<rparr>"

definition ex_f4 :: fragment where
  "ex_f4 = \<lparr>f_id = ''f4'', f_chapter = 2, f_type = ''ending'', f_title = ''Summit'',
            f_next_fragment = None, f_requirements = Some [(''level'', JInt 5)],
            f_rewards = None\<rparr>"

definition ex_v1 :: fragment where
  "ex_v1 = \<lparr>f_id = ''v1'', f_chapter = 1, f_type = ''narrative'', f_title = ''Salon'',
            f_next_fragment = None, f_requirements = None, f_rewards = None\<rparr>"

definition ex_story_manager :: story_manager where
  "ex_story_manager =
     \<lparr>get_story = (\<lambda>sid.
         if sid = ''free'' then Some \<lparr>s_title = ''Free'', requires_vip = False\<rparr>
         else if sid = ''vip'' then Some \<lparr>s_title = ''Vip'', requires_vip = True\<rparr>
         else None),
      get_starting_fragment = (\<lambda>sid.
         if sid = ''free'' then Some ex_f1
         else if sid = ''vip'' then Some ex_v1
         else None),
      get_fragment = (\<lambda>sid fid.
         if sid = Some ''free'' then
           (if fid = Some ''f1'' then Some ex_f1
            else if fid = Some ''f2'' then Some ex_f2
            else if fid = Some ''f3'' then Some ex_f3
            else if fid = Some ''f4'' then Some ex_f4
            else None)
         else if sid = Some ''vip'' \<and> fid = Some ''v1'' then Some ex_v1
         else None),
      validate_choice = (\<lambda>sid fid cid.
         if sid = Some ''free'' \<and> fid = Some ''f1'' then
           (if cid = ''c1'' then Some ex_c1
            else if cid = ''c2'' then Some ex_c2
            else if cid = ''c3'' then Some ex_c3
            else None)
         else None),
      check_requirements = (\<lambda>reqs ud.
         case map_of reqs ''level'' of
           Some (JInt n) \<Rightarrow> if n \<le> ud_level ud then (True, []) else (False, [''level''])
         | _ \<Rightarrow> (True, [])),
      calculate_completion_percent = (\<lambda>sid visited.
         of_nat (length (filter (\<lambda>f. f \<in> set visited) [''f1'', ''f2'', ''f3'', ''f4'']))
           * 100 / 4)\<rparr>"

definition ex_service :: narrative_service where
  "ex_service =
     \<lparr>the_story_manager = ex_story_manager,
      NARRATIVE_POINTS = (\<lambda>k. if k = ''fragment_read'' then 1
                               else if k = ''decision_made'' then 2 else 0),
      column_defaults =
        \<lparr>user_id = 0, active_story = None, current_fragment_id = None, current_chapter = 1,
         fragments_visited = [], story_flags = Map.empty, relationship_scores = Map.empty,
         total_decisions_made = 0, story_completion_percent = 0, vip_story_unlocked = False,
         started_at = 0, last_interaction_at = 0\<rparr>,
      mark_discovered = (\<lambda>flags fs. flags(''discovered_fragments'' \<mapsto> JList (map JStr fs)))\<rparr>"

definition ex_world0 :: world where
  "ex_world0 =
     \<lparr>users = [1 \<mapsto> \<lparr>role = ''free'', level = 1, points = 0\<rparr>],
      user_achievements = (\<lambda>uid. []),
      states = Map.empty,
      decisions = [],
      trace = []\<rparr>"

text \<open>User 1 starts the story, chooses \<open>c1\<close> and reads on into the checkpoint: the
  worlds after each step, and the state of user 1 in each.\<close>

definition ex_world1 :: world where
  "ex_world1 = snd (start_story ex_service 1 ''free'' ex_world0)"

definition ex_world2 :: world where
  "ex_world2 = snd (make_choice ex_service 1 ''c1'' 10 ex_world1)"

definition ex_world3 :: world where
  "ex_world3 = snd (navigate_next ex_service 1 20 ex_world2)"

definition ex_state1 :: user_narrative_state where
  "ex_state1 =
     (new_user_state ex_service 1)\<lparr>active_story := Some ''free'',
        current_fragment_id := Some ''f1'', current_chapter := 1,
        fragments_visited := [''f1''], story_completion_percent := 0\<rparr>"

definition ex_state2 :: user_narrative_state where
  "ex_state2 =
     ex_state1\<lparr>current_fragment_id := Some ''f2'', fragments_visited := [''f1'', ''f2''],
        total_decisions_made := 1, last_interaction_at := 10,
        story_completion_percent := 50\<rparr>"

definition ex_state3 :: user_narrative_state where
  "ex_state3 =
     ex_state2\<lparr>current_fragment_id := Some ''f3'', current_chapter := 2,
        fragments_visited := [''f1'', ''f2'', ''f3''], last_interaction_at := 20,
        story_completion_percent := 75\<rparr>"

text \<open>Then user 1 goes back, to \<open>f2\<close>.\<close>

definition ex_world4 :: world where
  "ex_world4 = snd (go_back ex_service 1 30 ex_world3)"

definition ex_state4 :: user_narrative_state where
  "ex_state4 =
     ex_state3\<lparr>current_fragment_id := Some ''f2'', current_chapter := 1,
        last_interaction_at := 30\<rparr>"

definition ex_decision :: user_decision where
  "ex_decision =
     \<lparr>d_user_id = 1, d_fragment_id = Some ''f1'', d_choice_id = ''c1'', d_choice_text = ''Go'',
      d_chapter = 1, points_gained = Some 5, items_gained = None\<rparr>"

text \<open>Or, after the choice, user 1 starts the story again.\<close>

definition ex_world2r :: world where
  "ex_world2r = snd (start_story ex_service 1 ''free'' ex_world2)"

section \<open>Properties\<close>

subsection \<open>What each operation returns and writes\<close>

text \<open>The helpers first: what they append to the trace, and which fields of the state
  and of the decision they leave alone.\<close>

lemmas collab_defs = commit_def give_narrative_points_def record_fragment_visit_def
  record_choice_metric_def create_checkpoint_def check_and_award_achievement_def
  unlock_lore_piece_def

lemma fold_award_trace:
  "fold (check_and_award_achievement uid) as w = w\<lparr>trace := trace w @ map (CheckAndAwardAchievement uid) as\<rparr>"
  by (induction as arbitrary: w) (simp_all add: check_and_award_achievement_def)

lemma fold_lore_trace:
  "fold (unlock_lore_piece uid) cs w = w\<lparr>trace := trace w @ map (UnlockLorePiece uid) cs\<rparr>"
  by (induction cs arbitrary: w) (simp_all add: unlock_lore_piece_def)

lemma process_fragment_rewards_world:
  "snd (process_fragment_rewards sv uid nf st w) =
     w\<lparr>trace := trace w @
         (case f_rewards nf of Some rw \<Rightarrow> rewards_events uid rw | None \<Rightarrow> [])\<rparr>"
  by (simp add: process_fragment_rewards_def rewards_events_def Let_def fold_award_trace
      fold_lore_trace give_narrative_points_def split: option.splits)

lemma process_fragment_rewards_state:
  "fst (process_fragment_rewards sv uid nf st w) =
     (case f_rewards nf of
        None \<Rightarrow> st
      | Some rw \<Rightarrow>
          (case r_unlock_fragments rw of
             Some fs \<Rightarrow> st\<lparr>story_flags := mark_discovered sv (story_flags st) fs\<rparr>
           | None \<Rightarrow> st))"
  by (simp add: process_fragment_rewards_def Let_def split: option.splits)

lemma apply_choice_effects_world:
  "snd (snd (apply_choice_effects uid eff d st w)) = w\<lparr>trace := trace w @ effects_events uid eff\<rparr>"
  by (simp add: apply_choice_effects_def effects_events_def Let_def give_narrative_points_def
      split: option.splits)

lemma apply_choice_effects_state:
  "fragments_visited (fst (apply_choice_effects uid eff d st w)) = fragments_visited st"
  "current_fragment_id (fst (apply_choice_effects uid eff d st w)) = current_fragment_id st"
  "total_decisions_made (fst (apply_choice_effects uid eff d st w)) = total_decisions_made st"
  "active_story (fst (apply_choice_effects uid eff d st w)) = active_story st"
  by (simp_all add: apply_choice_effects_def Let_def split: option.splits)

lemma apply_choice_effects_decision:
  "d_user_id (fst (snd (apply_choice_effects uid eff d st w))) = d_user_id d"
  "d_fragment_id (fst (snd (apply_choice_effects uid eff d st w))) = d_fragment_id d"
  "d_choice_id (fst (snd (apply_choice_effects uid eff d st w))) = d_choice_id d"
  by (simp_all add: apply_choice_effects_def Let_def split: option.splits)

lemma process_fragment_rewards_fields:
  "fragments_visited (fst (process_fragment_rewards sv uid nf st w)) = fragments_visited st"
  "current_fragment_id (fst (process_fragment_rewards sv uid nf st w)) = current_fragment_id st"
  "total_decisions_made (fst (process_fragment_rewards sv uid nf st w)) = total_decisions_made st"
  "active_story (fst (process_fragment_rewards sv uid nf st w)) = active_story st"
  by (simp_all add: process_fragment_rewards_state split: option.splits)

lemma enter_fragment_fields:
  "current_fragment_id (enter_fragment nf st) = Some (f_id nf)"
  "fragments_visited (enter_fragment nf st) =
     (if f_id nf \<in> set (fragments_visited st) then fragments_visited st
      else fragments_visited st @ [f_id nf])"
  "total_decisions_made (enter_fragment nf st) = total_decisions_made st"
  "active_story (enter_fragment nf st) = active_story st"
  by (simp_all add: enter_fragment_def Let_def)


text \<open>Then the operations. Each either fails and returns the world it was given, or
  raises, or succeeds; in the last case the lemma gives the world written, the trace
  appended and the fields of the committed state that the claims speak of.\<close>

lemma make_choice_shape:
  "(\<exists>m. make_choice sv uid cid now w = (Returned False m None, w)) \<or>
   (\<exists>st cf ch nf st' d snap.
      states w uid = Some st \<and>
      get_fragment (the_story_manager sv) (active_story st) (current_fragment_id st) = Some cf \<and>
      validate_choice (the_story_manager sv) (active_story st) (current_fragment_id st) cid = Some ch \<and>
      get_fragment (the_story_manager sv) (active_story st) (Some (c_next_fragment ch)) = Some nf \<and>
      make_choice sv uid cid now w =
        (Returned True Decision_registrada (Some nf),
         w\<lparr>states := (states w)(uid \<mapsto> st'),
           decisions := decisions w @ [d],
           trace := trace w @ pre_commit_events uid ch nf snap @
             [Commit, RecordFragmentVisit (f_id nf), RecordChoiceMetric (Some (f_id nf)) cid,
              GiveNarrativePoints uid (NARRATIVE_POINTS sv ''decision_made'')]\<rparr>) \<and>
      current_fragment_id st' = Some (f_id nf) \<and>
      fragments_visited st' =
        (if f_id nf \<in> set (fragments_visited st) then fragments_visited st
         else fragments_visited st @ [f_id nf]) \<and>
      total_decisions_made st' = total_decisions_made st + 1 \<and>
      active_story st' = active_story st \<and>
      d_user_id d = uid \<and> d_fragment_id d = current_fragment_id st \<and> d_choice_id d = cid)"
proof (cases "states w uid")
  case None
  then show ?thesis by (simp add: make_choice_def get_user_state_def)
next
  case (Some st)
  note st = this
  show ?thesis
  proof (cases "get_fragment (the_story_manager sv) (active_story st) (current_fragment_id st)")
    case None
    with st show ?thesis by (simp add: make_choice_def get_user_state_def)
  next
    case (Some cf)
    note cf = this
    show ?thesis
    proof (cases "validate_choice (the_story_manager sv) (active_story st) (current_fragment_id st) cid")
      case None
      with st cf show ?thesis by (simp add: make_choice_def get_user_state_def)
    next
      case (Some ch)
      note ch = this
      obtain can_choose missing where req:
        "check_requirements (the_story_manager sv)
           (case c_requirements ch of Some r \<Rightarrow> r | None \<Rightarrow> [])
           (get_user_data_for_requirements uid w) = (can_choose, missing)"
        by (cases "check_requirements (the_story_manager sv)
           (case c_requirements ch of Some r \<Rightarrow> r | None \<Rightarrow> [])
           (get_user_data_for_requirements uid w)") blast
      show ?thesis
      proof (cases can_choose)
        case False
        with st cf ch req show ?thesis by (simp add: make_choice_def get_user_state_def)
      next
        case True
        note ok = this
        show ?thesis
        proof (cases "get_fragment (the_story_manager sv) (active_story st) (Some (c_next_fragment ch))")
          case None
          with st cf ch req ok show ?thesis by (simp add: make_choice_def get_user_state_def)
        next
          case (Some nf)
          note nf = this
          define d0 where "d0 = \<lparr>d_user_id = uid, d_fragment_id = current_fragment_id st,
            d_choice_id = cid, d_choice_text = c_text ch, d_chapter = f_chapter cf,
            points_gained = None, items_gained = None\<rparr>"
          define r1 where "r1 = (case c_effects ch of
              Some eff \<Rightarrow> apply_choice_effects uid eff d0 st w
            | None \<Rightarrow> (st, d0, w))"
          define st3 where "st3 = (enter_fragment nf (fst r1))
            \<lparr>total_decisions_made := total_decisions_made (enter_fragment nf (fst r1)) + 1,
              last_interaction_at := now\<rparr>"
          define w2 where "w2 = (if f_type nf = ''checkpoint''
            then create_checkpoint uid st3 (snd (snd r1)) else snd (snd r1))"
          define r4 where "r4 = (case f_rewards nf of
              Some rw \<Rightarrow> process_fragment_rewards sv uid nf st3 w2
            | None \<Rightarrow> (st3, w2))"
          define st5 where "st5 = (fst r4)\<lparr>story_completion_percent :=
            calculate_completion_percent (the_story_manager sv)
              (active_story (fst r4)) (fragments_visited (fst r4))\<rparr>"
          have r1_world: "snd (snd r1) = w\<lparr>trace := trace w @
              (case c_effects ch of Some eff \<Rightarrow> effects_events uid eff | None \<Rightarrow> [])\<rparr>"
            by (simp add: r1_def apply_choice_effects_world split: option.splits)
          have r1_state: "fragments_visited (fst r1) = fragments_visited st"
            "current_fragment_id (fst r1) = current_fragment_id st"
            "total_decisions_made (fst r1) = total_decisions_made st"
            "active_story (fst r1) = active_story st"
            by (simp_all add: r1_def apply_choice_effects_state split: option.splits)
          have r1_dec: "d_user_id (fst (snd r1)) = uid"
            "d_fragment_id (fst (snd r1)) = current_fragment_id st"
            "d_choice_id (fst (snd r1)) = cid"
            by (simp_all add: r1_def d0_def apply_choice_effects_decision split: option.splits)
          have w2_eq: "w2 = w\<lparr>trace := trace w @
              (case c_effects ch of Some eff \<Rightarrow> effects_events uid eff | None \<Rightarrow> []) @
              (if f_type nf = ''checkpoint'' then [CreateCheckpoint uid st3] else [])\<rparr>"
            by (simp add: w2_def r1_world create_checkpoint_def)
          have r4_world: "snd r4 = w\<lparr>trace := trace w @ pre_commit_events uid ch nf st3\<rparr>"
            by (simp add: r4_def w2_eq process_fragment_rewards_world pre_commit_events_def
                split: option.splits)
          have st3_fields: "fragments_visited st3 =
              (if f_id nf \<in> set (fragments_visited st) then fragments_visited st
               else fragments_visited st @ [f_id nf])"
            "current_fragment_id st3 = Some (f_id nf)"
            "total_decisions_made st3 = total_decisions_made st + 1"
            "active_story st3 = active_story st"
            by (simp_all add: st3_def enter_fragment_fields r1_state)
          have r4_state: "fragments_visited (fst r4) = fragments_visited st3"
            "current_fragment_id (fst r4) = current_fragment_id st3"
            "total_decisions_made (fst r4) = total_decisions_made st3"
            "active_story (fst r4) = active_story st3"
            by (simp_all add: r4_def process_fragment_rewards_fields split: option.splits)
          have run: "make_choice sv uid cid now w =
            (Returned True Decision_registrada (Some nf),
             give_narrative_points uid (NARRATIVE_POINTS sv ''decision_made'')
               (record_choice_metric (current_fragment_id st5) cid
                 (record_fragment_visit (f_id nf)
                   (commit ((snd r4)\<lparr>states := (states (snd r4))(uid \<mapsto> st5),
                      decisions := decisions (snd r4) @ [fst (snd r1)]\<rparr>)))))"
            using st cf ch req ok nf
            by (simp add: make_choice_def get_user_state_def Let_def case_prod_beta
                d0_def r1_def st3_def w2_def r4_def st5_def enter_fragment_def
                cong: option.case_cong if_cong)
          have st5_fields: "fragments_visited st5 = fragments_visited st3"
            "current_fragment_id st5 = Some (f_id nf)"
            "total_decisions_made st5 = total_decisions_made st + 1"
            "active_story st5 = active_story st"
            by (simp_all add: st5_def r4_state st3_fields)
          have "make_choice sv uid cid now w =
            (Returned True Decision_registrada (Some nf),
             w\<lparr>states := (states w)(uid \<mapsto> st5),
               decisions := decisions w @ [fst (snd r1)],
               trace := trace w @ pre_commit_events uid ch nf st3 @
                 [Commit, RecordFragmentVisit (f_id nf), RecordChoiceMetric (Some (f_id nf)) cid,
                  GiveNarrativePoints uid (NARRATIVE_POINTS sv ''decision_made'')]\<rparr>)"
            by (simp add: run r4_world collab_defs st5_fields)
          with st5_fields st3_fields r1_dec
          have "\<exists>st' d snap. make_choice sv uid cid now w =
            (Returned True Decision_registrada (Some nf),
             w\<lparr>states := (states w)(uid \<mapsto> st'),
               decisions := decisions w @ [d],
               trace := trace w @ pre_commit_events uid ch nf snap @
                 [Commit, RecordFragmentVisit (f_id nf), RecordChoiceMetric (Some (f_id nf)) cid,
                  GiveNarrativePoints uid (NARRATIVE_POINTS sv ''decision_made'')]\<rparr>) \<and>
            current_fragment_id st' = Some (f_id nf) \<and>
            fragments_visited st' =
              (if f_id nf \<in> set (fragments_visited st) then fragments_visited st
               else fragments_visited st @ [f_id nf]) \<and>
            total_decisions_made st' = total_decisions_made st + 1 \<and>
            active_story st' = active_story st \<and>
            d_user_id d = uid \<and> d_fragment_id d = current_fragment_id st \<and> d_choice_id d = cid"
            by (intro exI [of _ st5] exI [of _ "fst (snd r1)"] exI [of _ st3]) simp
          with st cf ch nf show ?thesis by blast
        qed
      qed
    qed
  qed
qed



lemma navigate_next_shape:
  "(\<exists>m. navigate_next sv uid now w = (Returned False m None, w)) \<or>
   (\<exists>st cf nf st'.
      states w uid = Some st \<and>
      get_fragment (the_story_manager sv) (active_story st) (current_fragment_id st) = Some cf \<and>
      get_fragment (the_story_manager sv) (active_story st) (f_next_fragment cf) = Some nf \<and>
      navigate_next sv uid now w =
        (Returned True Continuando_historia (Some nf),
         w\<lparr>states := (states w)(uid \<mapsto> st'),
           trace := trace w @
             (case f_rewards nf of Some rw \<Rightarrow> rewards_events uid rw | None \<Rightarrow> []) @
             [Commit, RecordFragmentVisit (f_id nf),
              GiveNarrativePoints uid (NARRATIVE_POINTS sv ''fragment_read'')]\<rparr>) \<and>
      current_fragment_id st' = Some (f_id nf) \<and>
      fragments_visited st' =
        (if f_id nf \<in> set (fragments_visited st) then fragments_visited st
         else fragments_visited st @ [f_id nf]) \<and>
      total_decisions_made st' = total_decisions_made st \<and>
      active_story st' = active_story st)"
proof (cases "states w uid")
  case None
  then show ?thesis by (simp add: navigate_next_def get_user_state_def)
next
  case (Some st)
  note st = this
  show ?thesis
  proof (cases "get_fragment (the_story_manager sv) (active_story st) (current_fragment_id st)")
    case None
    with st show ?thesis by (simp add: navigate_next_def get_user_state_def)
  next
    case (Some cf)
    note cf = this
    show ?thesis
    proof (cases "f_next_fragment cf = None \<or> f_next_fragment cf = Some []")
      case True
      with st cf show ?thesis by (auto simp add: navigate_next_def get_user_state_def)
    next
      case False
      note nx = this
      show ?thesis
      proof (cases "get_fragment (the_story_manager sv) (active_story st) (f_next_fragment cf)")
        case None
        with st cf nx show ?thesis by (simp add: navigate_next_def get_user_state_def)
      next
        case (Some nf)
        note nf = this
        obtain can_access missing where req:
          "check_requirements (the_story_manager sv)
             (case f_requirements nf of Some r \<Rightarrow> r | None \<Rightarrow> [])
             (get_user_data_for_requirements uid w) = (can_access, missing)"
          by (cases "check_requirements (the_story_manager sv)
             (case f_requirements nf of Some r \<Rightarrow> r | None \<Rightarrow> [])
             (get_user_data_for_requirements uid w)") blast
        show ?thesis
        proof (cases can_access)
          case False
          with st cf nx nf req show ?thesis by (simp add: navigate_next_def get_user_state_def)
        next
          case True
          define st2 where "st2 = (enter_fragment nf st)\<lparr>last_interaction_at := now\<rparr>"
          define r3 where "r3 = (case f_rewards nf of
              Some rw \<Rightarrow> process_fragment_rewards sv uid nf st2 w
            | None \<Rightarrow> (st2, w))"
          define st4 where "st4 = (fst r3)\<lparr>story_completion_percent :=
            calculate_completion_percent (the_story_manager sv)
              (active_story (fst r3)) (fragments_visited (fst r3))\<rparr>"
          have r3_world: "snd r3 = w\<lparr>trace := trace w @
              (case f_rewards nf of Some rw \<Rightarrow> rewards_events uid rw | None \<Rightarrow> [])\<rparr>"
            by (simp add: r3_def process_fragment_rewards_world split: option.splits)
          have st2_fields: "fragments_visited st2 =
              (if f_id nf \<in> set (fragments_visited st) then fragments_visited st
               else fragments_visited st @ [f_id nf])"
            "current_fragment_id st2 = Some (f_id nf)"
            "total_decisions_made st2 = total_decisions_made st"
            "active_story st2 = active_story st"
            by (simp_all add: st2_def enter_fragment_fields)
          have r3_state: "fragments_visited (fst r3) = fragments_visited st2"
            "current_fragment_id (fst r3) = current_fragment_id st2"
            "total_decisions_made (fst r3) = total_decisions_made st2"
            "active_story (fst r3) = active_story st2"
            by (simp_all add: r3_def process_fragment_rewards_fields split: option.splits)
          have st4_fields: "fragments_visited st4 = fragments_visited st2"
            "current_fragment_id st4 = Some (f_id nf)"
            "total_decisions_made st4 = total_decisions_made st"
            "active_story st4 = active_story st"
            by (simp_all add: st4_def r3_state st2_fields)
          have run: "navigate_next sv uid now w =
            (Returned True Continuando_historia (Some nf),
             give_narrative_points uid (NARRATIVE_POINTS sv ''fragment_read'')
               (record_fragment_visit (f_id nf)
                 (commit ((snd r3)\<lparr>states := (states (snd r3))(uid \<mapsto> st4)\<rparr>))))"
            using st cf nx nf req True
            by (simp add: navigate_next_def get_user_state_def Let_def case_prod_beta
                st2_def r3_def st4_def enter_fragment_def cong: option.case_cong if_cong)
          have "navigate_next sv uid now w =
            (Returned True Continuando_historia (Some nf),
             w\<lparr>states := (states w)(uid \<mapsto> st4),
               trace := trace w @
                 (case f_rewards nf of Some rw \<Rightarrow> rewards_events uid rw | None \<Rightarrow> []) @
                 [Commit, RecordFragmentVisit (f_id nf),
                  GiveNarrativePoints uid (NARRATIVE_POINTS sv ''fragment_read'')]\<rparr>)"
            by (simp add: run r3_world collab_defs)
          with st cf nf st4_fields st2_fields show ?thesis
            by (intro disjI2 exI [of _ st] exI [of _ cf] exI [of _ nf] exI [of _ st4]) simp
        qed
      qed
    qed
  qed
qed

lemma navigate_next_unmet:
  assumes "states w uid = Some st"
    and "get_fragment (the_story_manager sv) (active_story st) (current_fragment_id st) = Some cf"
    and "f_next_fragment cf = Some nid" and "nid \<noteq> []"
    and "get_fragment (the_story_manager sv) (active_story st) (Some nid) = Some nf"
    and "check_requirements (the_story_manager sv)
           (case f_requirements nf of Some r \<Rightarrow> r | None \<Rightarrow> [])
           (get_user_data_for_requirements uid w) = (False, missing)"
  shows "navigate_next sv uid now w = (Returned False (No_cumples_los_requisitos missing) None, w)"
  using assms by (simp add: navigate_next_def get_user_state_def)

lemma index_of_Some:
  "index_of xs y = Some i \<Longrightarrow> i < length xs \<and> xs ! i = y \<and> (\<forall>j<i. xs ! j \<noteq> y)"
proof (induction xs arbitrary: i)
  case Nil
  then show ?case by simp
next
  case (Cons x xs)
  show ?case
  proof (cases "x = y")
    case True
    with Cons.prems show ?thesis by simp
  next
    case False
    with Cons.prems obtain k where k: "index_of xs y = Some k" "i = Suc k"
      by auto
    from Cons.IH [OF k(1)] have ih: "k < length xs" "xs ! k = y" "\<forall>j<k. xs ! j \<noteq> y"
      by simp_all
    have "\<forall>j<i. (x # xs) ! j \<noteq> y"
    proof (intro allI impI)
      fix j assume "j < i"
      then show "(x # xs) ! j \<noteq> y"
        using False ih(3) k(2) by (cases j) simp_all
    qed
    with ih k show ?thesis by simp
  qed
qed

lemma index_of_None: "index_of xs y = None \<longleftrightarrow> y \<notin> set xs"
  by (induction xs) auto

lemma go_back_shape:
  "(\<exists>m. go_back sv uid now w = (Returned False m None, w)) \<or>
   (go_back sv uid now w = (Raised ValueError, w) \<and>
      (\<exists>st. states w uid = Some st \<and> 1 < length (fragments_visited st) \<and>
         (case current_fragment_id st of None \<Rightarrow> True
          | Some c \<Rightarrow> c \<notin> set (fragments_visited st)))) \<or>
   (\<exists>st c i pf.
      states w uid = Some st \<and> 1 < length (fragments_visited st) \<and>
      current_fragment_id st = Some c \<and> index_of (fragments_visited st) c = Some i \<and> 0 < i \<and>
      get_fragment (the_story_manager sv) (active_story st)
        (Some (fragments_visited st ! (i - 1))) = Some pf \<and>
      go_back sv uid now w =
        (Returned True Has_retrocedido (Some pf),
         w\<lparr>states := (states w)(uid \<mapsto>
              st\<lparr>current_fragment_id := Some (fragments_visited st ! (i - 1)),
                 current_chapter := f_chapter pf,
                 last_interaction_at := now\<rparr>),
           trace := trace w @ [Commit]\<rparr>))"
  by (auto simp add: go_back_def get_user_state_def Let_def commit_def index_of_None
      split: option.splits)


lemma start_story_shape:
  assumes w1: "w1 = (case states w uid of
                  None \<Rightarrow> w\<lparr>states := (states w)(uid \<mapsto> new_user_state sv uid),
                            trace := trace w @ [Commit]\<rparr>
                | Some s \<Rightarrow> w)"
    and st0: "st0 = (case states w uid of None \<Rightarrow> new_user_state sv uid | Some s \<Rightarrow> s)"
  shows
    "(get_story (the_story_manager sv) sid = None \<and>
        start_story sv uid sid w = (Returned False Historia_no_encontrada None, w)) \<or>
     (\<exists>story. get_story (the_story_manager sv) sid = Some story \<and> requires_vip story \<and>
        users w uid = None \<and> start_story sv uid sid w = (Raised AttributeError, w1)) \<or>
     (\<exists>story u. get_story (the_story_manager sv) sid = Some story \<and> requires_vip story \<and>
        users w uid = Some u \<and> role u \<noteq> ''vip'' \<and>
        start_story sv uid sid w = (Returned False Requiere_suscripcion_VIP None, w1)) \<or>
     (\<exists>story. get_story (the_story_manager sv) sid = Some story \<and>
        get_starting_fragment (the_story_manager sv) sid = None \<and>
        start_story sv uid sid w = (Returned False Error_al_cargar_la_historia None, w1)) \<or>
     (\<exists>story sf st'. get_story (the_story_manager sv) sid = Some story \<and>
        get_starting_fragment (the_story_manager sv) sid = Some sf \<and>
        start_story sv uid sid w =
          (Returned True (Historia_iniciada (s_title story)) (Some sf),
           w1\<lparr>states := (states w1)(uid \<mapsto> st'),
              trace := trace w1 @ [Commit, RecordFragmentVisit (f_id sf),
                GiveNarrativePoints uid (NARRATIVE_POINTS sv ''fragment_read'')]\<rparr>) \<and>
        current_fragment_id st' = Some (f_id sf) \<and>
        fragments_visited st' = [f_id sf] \<and>
        total_decisions_made st' = total_decisions_made st0 \<and>
        active_story st' = Some sid)"
proof (cases "get_story (the_story_manager sv) sid")
  case None
  then show ?thesis by (simp add: start_story_def)
next
  case (Some story)
  note story = this
  have got: "(case get_user_state w uid of
                None \<Rightarrow> initialize_user_narrative sv uid w
              | Some st \<Rightarrow> (Inr st, w)) = (Inr st0, w1)"
    by (simp add: w1 st0 get_user_state_def initialize_user_narrative_def commit_def Let_def
        split: option.splits)
  have users_w1: "users w1 = users w"
    by (simp add: w1 split: option.splits)
  show ?thesis
  proof (cases "requires_vip story \<and> users w uid = None")
    case True
    with story got users_w1 show ?thesis by (simp add: start_story_def)
  next
    case False
    note not_missing = this
    show ?thesis
    proof (cases "requires_vip story \<and> (\<exists>u. users w uid = Some u \<and> role u \<noteq> ''vip'')")
      case True
      with story got users_w1 show ?thesis by (auto simp add: start_story_def)
    next
      case False
      with not_missing have pass:
        "(if requires_vip story
          then (case users w1 uid of
                  None \<Rightarrow> Inl AttributeError
                | Some u \<Rightarrow> Inr (role u \<noteq> ''vip''))
          else Inr False) = Inr False"
        by (auto simp add: users_w1 split: option.splits)
      show ?thesis
      proof (cases "get_starting_fragment (the_story_manager sv) sid")
        case None
        with story got pass show ?thesis by (simp add: start_story_def)
      next
        case (Some sf)
        define st1 where "st1 = st0\<lparr>active_story := Some sid,
          current_fragment_id := Some (f_id sf), current_chapter := f_chapter sf,
          fragments_visited := [f_id sf], story_completion_percent := 0\<rparr>"
        define st2 where "st2 = (if sid = ''vip'' then st1\<lparr>vip_story_unlocked := True\<rparr> else st1)"
        have fields: "current_fragment_id st2 = Some (f_id sf)" "fragments_visited st2 = [f_id sf]"
          "total_decisions_made st2 = total_decisions_made st0" "active_story st2 = Some sid"
          by (simp_all add: st2_def st1_def)
        have "start_story sv uid sid w =
          (Returned True (Historia_iniciada (s_title story)) (Some sf),
           w1\<lparr>states := (states w1)(uid \<mapsto> st2),
              trace := trace w1 @ [Commit, RecordFragmentVisit (f_id sf),
                GiveNarrativePoints uid (NARRATIVE_POINTS sv ''fragment_read'')]\<rparr>)"
          using story got pass Some
          by (simp add: start_story_def Let_def collab_defs st2_def st1_def
              cong: if_cong)
        with story Some fields show ?thesis by blast
      qed
    qed
  qed
qed

text \<open>Every operation leaves the table of states as it was or writes the state of one
  user; the state written has its cursor in its visited list, and a visited list without
  duplicates if the list it replaces had none. Hence the three invariants hold in every
  reachable world.\<close>

lemma make_choice_writes:
  "states (snd (make_choice sv uid cid now w)) = states w \<or>
   (\<exists>st'. states (snd (make_choice sv uid cid now w)) = (states w)(uid \<mapsto> st') \<and>
      cursor_tracked st' \<and> history_anchored st' \<and>
      ((\<forall>st. states w uid = Some st \<longrightarrow> distinct (fragments_visited st)) \<longrightarrow>
         distinct (fragments_visited st')))"
  using make_choice_shape [of sv uid cid now w]
  by (elim disjE exE conjE) (auto simp add: cursor_tracked_def history_anchored_def)

lemma navigate_next_writes:
  "states (snd (navigate_next sv uid now w)) = states w \<or>
   (\<exists>st'. states (snd (navigate_next sv uid now w)) = (states w)(uid \<mapsto> st') \<and>
      cursor_tracked st' \<and> history_anchored st' \<and>
      ((\<forall>st. states w uid = Some st \<longrightarrow> distinct (fragments_visited st)) \<longrightarrow>
         distinct (fragments_visited st')))"
  using navigate_next_shape [of sv uid now w]
  by (elim disjE exE conjE) (auto simp add: cursor_tracked_def history_anchored_def)

lemma go_back_writes:
  "states (snd (go_back sv uid now w)) = states w \<or>
   (\<exists>st'. states (snd (go_back sv uid now w)) = (states w)(uid \<mapsto> st') \<and>
      cursor_tracked st' \<and> history_anchored st' \<and>
      ((\<forall>st. states w uid = Some st \<longrightarrow> distinct (fragments_visited st)) \<longrightarrow>
         distinct (fragments_visited st')))"
  using go_back_shape [of sv uid now w]
proof (elim disjE exE conjE)
  fix st c i pf
  assume st: "states w uid = Some st" and i: "index_of (fragments_visited st) c = Some i" "0 < i"
    and run: "go_back sv uid now w =
      (Returned True Has_retrocedido (Some pf),
       w\<lparr>states := (states w)(uid \<mapsto>
            st\<lparr>current_fragment_id := Some (fragments_visited st ! (i - 1)),
               current_chapter := f_chapter pf, last_interaction_at := now\<rparr>),
         trace := trace w @ [Commit]\<rparr>)"
  from index_of_Some [OF i(1)] have "i < length (fragments_visited st)"
    by simp
  then have "i - 1 < length (fragments_visited st)"
    by arith
  then have "fragments_visited st ! (i - 1) \<in> set (fragments_visited st)"
    by simp
  with st run show ?thesis
    by (auto simp add: cursor_tracked_def history_anchored_def)
qed auto

lemma new_user_state_fields:
  "current_fragment_id (new_user_state sv uid) = None"
  "fragments_visited (new_user_state sv uid) = []"
  "total_decisions_made (new_user_state sv uid) = total_decisions_made (column_defaults sv)"
  by (simp_all add: new_user_state_def)

lemma initialize_user_narrative_writes:
  "states (snd (initialize_user_narrative sv uid w)) = states w \<or>
   (\<exists>st'. states (snd (initialize_user_narrative sv uid w)) = (states w)(uid \<mapsto> st') \<and>
      cursor_tracked st' \<and> history_anchored st' \<and>
      ((\<forall>st. states w uid = Some st \<longrightarrow> distinct (fragments_visited st)) \<longrightarrow>
         distinct (fragments_visited st')))"
  by (cases "states w uid")
    (auto simp add: initialize_user_narrative_def commit_def Let_def cursor_tracked_def
      history_anchored_def new_user_state_fields)

lemma start_story_writes:
  "states (snd (start_story sv uid sid w)) = states w \<or>
   (\<exists>st'. states (snd (start_story sv uid sid w)) = (states w)(uid \<mapsto> st') \<and>
      cursor_tracked st' \<and> history_anchored st' \<and>
      ((\<forall>st. states w uid = Some st \<longrightarrow> distinct (fragments_visited st)) \<longrightarrow>
         distinct (fragments_visited st')))"
proof -
  define w1 where "w1 = (case states w uid of
                  None \<Rightarrow> w\<lparr>states := (states w)(uid \<mapsto> new_user_state sv uid),
                            trace := trace w @ [Commit]\<rparr>
                | Some s \<Rightarrow> w)"
  define st0 where "st0 = (case states w uid of None \<Rightarrow> new_user_state sv uid | Some s \<Rightarrow> s)"
  have w1_states: "states w1 = states w \<or>
      (states w1 = (states w)(uid \<mapsto> new_user_state sv uid))"
    by (simp add: w1_def split: option.splits)
  have fresh: "cursor_tracked (new_user_state sv uid)" "history_anchored (new_user_state sv uid)"
    "distinct (fragments_visited (new_user_state sv uid))"
    by (simp_all add: cursor_tracked_def history_anchored_def new_user_state_fields)
  have over: "(states w1)(uid \<mapsto> st') = (states w)(uid \<mapsto> st')" for st'
    using w1_states by auto
  from start_story_shape [OF w1_def st0_def, of sid] show ?thesis
  proof (elim disjE exE conjE)
    fix story :: story and sf st'
    assume run: "start_story sv uid sid w =
          (Returned True (Historia_iniciada (s_title story)) (Some sf),
           w1\<lparr>states := (states w1)(uid \<mapsto> st'),
              trace := trace w1 @ [Commit, RecordFragmentVisit (f_id sf),
                GiveNarrativePoints uid (NARRATIVE_POINTS sv ''fragment_read'')]\<rparr>)"
      and f: "current_fragment_id st' = Some (f_id sf)" "fragments_visited st' = [f_id sf]"
    from run have "states (snd (start_story sv uid sid w)) = (states w)(uid \<mapsto> st')"
      by (simp add: over)
    with f show ?thesis
      by (auto simp add: cursor_tracked_def history_anchored_def)
  qed (use w1_states fresh in auto)
qed

lemma writes_cursor_in_history:
  assumes "states w' = states w \<or>
   (\<exists>st'. states w' = (states w)(uid \<mapsto> st') \<and>
      cursor_tracked st' \<and> history_anchored st' \<and>
      ((\<forall>st. states w uid = Some st \<longrightarrow> distinct (fragments_visited st)) \<longrightarrow>
         distinct (fragments_visited st')))"
  shows "cursor_in_history w \<Longrightarrow> cursor_in_history w'"
    and "histories_anchored w \<Longrightarrow> histories_anchored w'"
    and "histories_distinct w \<Longrightarrow> histories_distinct w'"
  using assms
  by (auto simp add: cursor_in_history_def histories_anchored_def histories_distinct_def
      split: if_splits)

lemma reachable_invariants:
  "reachable sv w \<Longrightarrow> cursor_in_history w \<and> histories_anchored w \<and> histories_distinct w"
proof (induction rule: reachable.induct)
  case (initial w)
  then show ?case
    by (simp add: cursor_in_history_def histories_anchored_def histories_distinct_def)
next
  case (external w us ua)
  then show ?case
    by (simp add: cursor_in_history_def histories_anchored_def histories_distinct_def)
next
  case (by_initialize w uid)
  then show ?case
    using writes_cursor_in_history [OF initialize_user_narrative_writes [of sv uid w]] by blast
next
  case (by_start_story w uid story_id)
  then show ?case
    using writes_cursor_in_history [OF start_story_writes [of sv uid story_id w]] by blast
next
  case (by_make_choice w uid choice_id now)
  then show ?case
    using writes_cursor_in_history [OF make_choice_writes [of sv uid choice_id now w]] by blast
next
  case (by_navigate_next w uid now)
  then show ?case
    using writes_cursor_in_history [OF navigate_next_writes [of sv uid now w]] by blast
next
  case (by_go_back w uid now)
  then show ?case
    using writes_cursor_in_history [OF go_back_writes [of sv uid now w]] by blast
qed

lemma go_back_never_raises:
  assumes "cursor_in_history w" and "histories_anchored w"
  shows "fst (go_back sv uid now w) \<noteq> Raised e"
proof
  assume raised: "fst (go_back sv uid now w) = Raised e"
  from go_back_shape [of sv uid now w] raised
  obtain st where st: "states w uid = Some st" "1 < length (fragments_visited st)"
    "case current_fragment_id st of None \<Rightarrow> True | Some c \<Rightarrow> c \<notin> set (fragments_visited st)"
    by (elim disjE exE conjE) auto
  from assms st(1) have "cursor_tracked st" "history_anchored st"
    by (auto simp add: cursor_in_history_def histories_anchored_def)
  with st(2,3) show False
    by (cases "current_fragment_id st") (auto simp add: cursor_tracked_def history_anchored_def)
qed

lemma go_back_short_history:
  "states w uid = None \<or> (\<exists>st. states w uid = Some st \<and> length (fragments_visited st) \<le> 1)
   \<Longrightarrow> go_back sv uid now w = (Returned False No_puedes_retroceder_mas None, w)"
  by (auto simp add: go_back_def get_user_state_def)

lemma index_of_first:
  assumes "y \<in> set xs" and "\<forall>i. 0 < i \<longrightarrow> i < length xs \<longrightarrow> xs ! i \<noteq> y"
  shows "index_of xs y = Some 0"
proof (cases "index_of xs y")
  case None
  with assms(1) show ?thesis by (simp add: index_of_None)
next
  case (Some i)
  from index_of_Some [OF Some] have "i < length xs" "xs ! i = y" by simp_all
  with assms(2) have "i = 0" by (cases i) auto
  with Some show ?thesis by simp
qed

lemma rewards_events_kinds:
  "e \<in> set (rewards_events uid rw) \<Longrightarrow> \<not> is_metric e \<and> e \<noteq> Commit"
  by (auto simp add: rewards_events_def split: option.splits if_splits)

lemma pre_commit_events_kinds:
  "e \<in> set (pre_commit_events uid ch nf snap) \<Longrightarrow> \<not> is_metric e \<and> e \<noteq> Commit"
  by (auto simp add: pre_commit_events_def effects_events_def dest: rewards_events_kinds
      split: option.splits if_splits)

lemma pre_commit_events_points:
  "c_effects ch = Some eff \<Longrightarrow> e_points eff = Some p \<Longrightarrow>
   \<exists>rest. pre_commit_events uid ch nf snap = GiveNarrativePoints uid p # rest"
  by (simp add: pre_commit_events_def effects_events_def)

lemma pre_commit_events_saves:
  "length (filter is_checkpoint_save (pre_commit_events uid ch nf snap)) =
     (if f_type nf = ''checkpoint'' then 1 else 0)"
  by (simp add: pre_commit_events_def effects_events_def rewards_events_def
      filter_map comp_def split: option.splits)

lemma rewards_events_saves: "filter is_checkpoint_save (rewards_events uid rw) = []"
  by (simp add: rewards_events_def filter_map comp_def split: option.splits)

subsection \<open>The concrete run\<close>

text \<open>The worlds of the small story, computed step by step.\<close>

lemmas ex_defs = ex_service_def ex_story_manager_def ex_world0_def ex_c1_def ex_c2_def ex_c3_def
  ex_f1_def ex_f2_def ex_f3_def ex_f4_def ex_v1_def

lemmas op_defs = start_story_def make_choice_def navigate_next_def go_back_def
  initialize_user_narrative_def new_user_state_def get_user_state_def
  get_user_data_for_requirements_def apply_choice_effects_def process_fragment_rewards_def
  enter_fragment_def collab_defs Let_def

lemma ex_world1_eq:
  "ex_world1 = ex_world0\<lparr>states := [1 \<mapsto> ex_state1],
     trace := [Commit, Commit, RecordFragmentVisit ''f1'', GiveNarrativePoints 1 1]\<rparr>"
  by (simp add: ex_world1_def ex_state1_def op_defs ex_defs)

lemma ex_start: "fst (start_story ex_service 1 ''free'' ex_world0) =
   Returned True (Historia_iniciada ''Free'') (Some ex_f1)"
  by (simp add: op_defs ex_defs)

lemma ex_choice: "make_choice ex_service 1 ''c1'' 10 ex_world1 =
   (Returned True Decision_registrada (Some ex_f2),
    ex_world1\<lparr>states := [1 \<mapsto> ex_state2],
      decisions := [ex_decision],
      trace := trace ex_world1 @ [GiveNarrativePoints 1 5, Commit, RecordFragmentVisit ''f2'',
         RecordChoiceMetric (Some ''f2'') ''c1'', GiveNarrativePoints 1 2]\<rparr>)"
  by (simp add: ex_world1_eq ex_state1_def ex_state2_def ex_decision_def op_defs ex_defs)

lemma ex_world2_eq:
  "ex_world2 = ex_world0\<lparr>states := [1 \<mapsto> ex_state2], decisions := [ex_decision],
     trace := [Commit, Commit, RecordFragmentVisit ''f1'', GiveNarrativePoints 1 1,
       GiveNarrativePoints 1 5, Commit, RecordFragmentVisit ''f2'',
       RecordChoiceMetric (Some ''f2'') ''c1'', GiveNarrativePoints 1 2]\<rparr>"
  by (simp add: ex_world2_def ex_choice) (simp add: ex_world1_eq)

lemma ex_navigate: "navigate_next ex_service 1 20 ex_world2 =
   (Returned True Continuando_historia (Some ex_f3),
    ex_world2\<lparr>states := [1 \<mapsto> ex_state3],
      trace := trace ex_world2 @ [Commit, RecordFragmentVisit ''f3'', GiveNarrativePoints 1 1]\<rparr>)"
  by (simp add: ex_world2_eq ex_state1_def ex_state2_def ex_state3_def op_defs ex_defs)

lemma ex_world3_eq:
  "ex_world3 = ex_world0\<lparr>states := [1 \<mapsto> ex_state3], decisions := [ex_decision],
     trace := [Commit, Commit, RecordFragmentVisit ''f1'', GiveNarrativePoints 1 1,
       GiveNarrativePoints 1 5, Commit, RecordFragmentVisit ''f2'',
       RecordChoiceMetric (Some ''f2'') ''c1'', GiveNarrativePoints 1 2,
       Commit, RecordFragmentVisit ''f3'', GiveNarrativePoints 1 1]\<rparr>"
  by (simp add: ex_world3_def ex_navigate) (simp add: ex_world2_eq)

lemma ex_go_back: "go_back ex_service 1 30 ex_world3 =
   (Returned True Has_retrocedido (Some ex_f2),
    ex_world3\<lparr>states := [1 \<mapsto> ex_state4], trace := trace ex_world3 @ [Commit]\<rparr>)"
  by (simp add: ex_world3_eq ex_state1_def ex_state2_def ex_state3_def ex_state4_def
      op_defs ex_defs)

lemma ex_world4_eq:
  "ex_world4 = ex_world3\<lparr>states := [1 \<mapsto> ex_state4], trace := trace ex_world3 @ [Commit]\<rparr>"
  by (simp add: ex_world4_def ex_go_back)

lemma ex_reachable:
  "reachable ex_service ex_world0" "reachable ex_service ex_world1"
  "reachable ex_service ex_world2" "reachable ex_service ex_world3"
  "reachable ex_service ex_world4"
proof -
  show r0: "reachable ex_service ex_world0"
    by (rule reachable.initial) (simp_all add: ex_world0_def)
  show r1: "reachable ex_service ex_world1"
    unfolding ex_world1_def by (rule reachable.by_start_story [OF r0])
  show r2: "reachable ex_service ex_world2"
    unfolding ex_world2_def by (rule reachable.by_make_choice [OF r1])
  show r3: "reachable ex_service ex_world3"
    unfolding ex_world3_def by (rule reachable.by_navigate_next [OF r2])
  show "reachable ex_service ex_world4"
    unfolding ex_world4_def by (rule reachable.by_go_back [OF r3])
qed

lemma ex_state_fields:
  "current_fragment_id ex_state1 = Some ''f1''" "fragments_visited ex_state1 = [''f1'']"
  "current_fragment_id ex_state2 = Some ''f2''" "fragments_visited ex_state2 = [''f1'', ''f2'']"
  "current_fragment_id ex_state3 = Some ''f3''"
  "fragments_visited ex_state3 = [''f1'', ''f2'', ''f3'']"
  "current_fragment_id ex_state4 = Some ''f2''"
  "fragments_visited ex_state4 = [''f1'', ''f2'', ''f3'']"
  "total_decisions_made ex_state1 = 0" "total_decisions_made ex_state2 = 1"
  "total_decisions_made ex_state3 = 1" "total_decisions_made ex_state4 = 1"
  by (simp_all add: ex_state1_def ex_state2_def ex_state3_def ex_state4_def new_user_state_def
      ex_service_def)

lemma ex_restart: "start_story ex_service 1 ''free'' ex_world2 =
   (Returned True (Historia_iniciada ''Free'') (Some ex_f1), ex_world2r)"
  by (simp add: ex_world2r_def prod_eq_iff) (simp add: ex_world2_eq op_defs ex_defs)

lemma ex_world2r_state:
  "states ex_world2r 1 =
     Some (ex_state2\<lparr>current_fragment_id := Some ''f1'', fragments_visited := [''f1''],
             story_completion_percent := 0\<rparr>)"
  "users ex_world2r = users ex_world0" "user_achievements ex_world2r = user_achievements ex_world0"
  "decisions ex_world2r = [ex_decision]"
  by (simp_all add: ex_world2r_def ex_world2_eq ex_state2_def ex_state1_def op_defs ex_defs)

section \<open>The claims\<close>

text \<open>
  Claim C1. Whenever \<^verbatim>\<open>make_choice\<close> returns a failure, for one of the five reasons (no
  state, current fragment not resolved, choice not valid, requirements of the choice not
  met, next fragment not resolved), the world it leaves is the world it was given: the
  state of the user, with its cursor, visited list and decision counter, is as before, and
  no decision has been recorded. The result carries no fragment.
\<close>

theorem make_choice_failure_changes_nothing:
  assumes "make_choice sv uid choice_id now w = (Returned False m f, w')"
  shows "w' = w \<and> states w' uid = states w uid \<and> decisions w' = decisions w \<and> f = None \<and>
         (m = No_tienes_una_historia_activa \<or> m = Error_al_cargar_el_fragmento_actual \<or>
          m = Opcion_no_valida \<or> (\<exists>missing. m = No_cumples_los_requisitos missing) \<or>
          m = Error_al_cargar_el_siguiente_fragmento)"
proof -
  have kinds: "m = No_tienes_una_historia_activa \<or> m = Error_al_cargar_el_fragmento_actual \<or>
          m = Opcion_no_valida \<or> (\<exists>missing. m = No_cumples_los_requisitos missing) \<or>
          m = Error_al_cargar_el_siguiente_fragmento"
    using assms
    by (auto simp add: make_choice_def get_user_state_def Let_def
        split: option.splits prod.splits if_splits)
  from make_choice_shape [of sv uid choice_id now w] assms
  have "w' = w \<and> f = None" by auto
  with kinds show ?thesis by simp
qed

theorem make_choice_failure_changes_nothing_witness:
  "make_choice ex_service 1 ''c2'' 10 ex_world1 =
     (Returned False (No_cumples_los_requisitos [''level'']) None, ex_world1) \<and>
   states ex_world1 1 = Some ex_state1 \<and> decisions ex_world1 = []"
proof -
  have run: "make_choice ex_service 1 ''c2'' 10 ex_world1 =
     (Returned False (No_cumples_los_requisitos [''level'']) None,
      snd (make_choice ex_service 1 ''c2'' 10 ex_world1))"
    by (simp add: ex_world1_eq ex_state1_def op_defs ex_defs)
  from make_choice_failure_changes_nothing [OF run] run show ?thesis
    by (simp add: ex_world1_eq ex_world0_def)
qed

text \<open>
  Claim C7. \<^verbatim>\<open>navigate_next\<close> always returns a result tuple; whether it succeeds or
  fails, the decision log is as before and every user's decision counter is as before.
  When the requirements of the target fragment are not met, the result is the failure
  that carries the list of missing requirements, and the world is unchanged.
\<close>

theorem navigate_next_makes_no_decision:
  assumes "navigate_next sv uid now w = (out, w')"
  shows "(\<exists>ok m f. out = Returned ok m f) \<and>
         decisions w' = decisions w \<and>
         (\<forall>u. map_option total_decisions_made (states w' u) =
               map_option total_decisions_made (states w u)) \<and>
         (\<forall>st cf nid nf missing.
            states w uid = Some st \<longrightarrow>
            get_fragment (the_story_manager sv) (active_story st) (current_fragment_id st)
              = Some cf \<longrightarrow>
            f_next_fragment cf = Some nid \<longrightarrow> nid \<noteq> [] \<longrightarrow>
            get_fragment (the_story_manager sv) (active_story st) (Some nid) = Some nf \<longrightarrow>
            check_requirements (the_story_manager sv)
              (case f_requirements nf of Some r \<Rightarrow> r | None \<Rightarrow> [])
              (get_user_data_for_requirements uid w) = (False, missing) \<longrightarrow>
            out = Returned False (No_cumples_los_requisitos missing) None \<and> w' = w)"
proof -
  from navigate_next_shape [of sv uid now w] assms
  have "(\<exists>ok m f. out = Returned ok m f) \<and> decisions w' = decisions w \<and>
        (\<forall>u. map_option total_decisions_made (states w' u) =
               map_option total_decisions_made (states w u))"
    by (elim disjE exE conjE) auto
  moreover have "out = Returned False (No_cumples_los_requisitos missing) None \<and> w' = w"
    if "states w uid = Some st"
      "get_fragment (the_story_manager sv) (active_story st) (current_fragment_id st) = Some cf"
      "f_next_fragment cf = Some nid" "nid \<noteq> []"
      "get_fragment (the_story_manager sv) (active_story st) (Some nid) = Some nf"
      "check_requirements (the_story_manager sv)
              (case f_requirements nf of Some r \<Rightarrow> r | None \<Rightarrow> [])
              (get_user_data_for_requirements uid w) = (False, missing)"
    for st cf nid nf missing
    using navigate_next_unmet [OF that, of now] assms by simp
  ultimately show ?thesis by blast
qed

theorem navigate_next_makes_no_decision_witness:
  "navigate_next ex_service 1 30 ex_world3 =
     (Returned False (No_cumples_los_requisitos [''level'']) None, ex_world3) \<and>
   decisions ex_world3 = [ex_decision] \<and>
   map_option total_decisions_made (states ex_world3 1) = Some 1"
proof -
  have st: "states ex_world3 1 = Some ex_state3"
    by (simp add: ex_world3_eq)
  have cf: "get_fragment (the_story_manager ex_service) (active_story ex_state3)
      (current_fragment_id ex_state3) = Some ex_f3"
    by (simp add: ex_state3_def ex_state2_def ex_state1_def new_user_state_def ex_defs)
  have nx: "f_next_fragment ex_f3 = Some ''f4''" "''f4'' \<noteq> []"
    by (simp_all add: ex_f3_def)
  have nf: "get_fragment (the_story_manager ex_service) (active_story ex_state3) (Some ''f4'')
      = Some ex_f4"
    by (simp add: ex_state3_def ex_state2_def ex_state1_def new_user_state_def ex_defs)
  have unmet: "check_requirements (the_story_manager ex_service)
      (case f_requirements ex_f4 of Some r \<Rightarrow> r | None \<Rightarrow> [])
      (get_user_data_for_requirements 1 ex_world3) = (False, [''level''])"
    by (simp add: ex_world3_eq get_user_data_for_requirements_def get_user_state_def ex_defs)
  have run: "navigate_next ex_service 1 30 ex_world3 =
      (fst (navigate_next ex_service 1 30 ex_world3), snd (navigate_next ex_service 1 30 ex_world3))"
    by simp
  from navigate_next_makes_no_decision [OF run] st cf nx nf unmet
  have "fst (navigate_next ex_service 1 30 ex_world3) =
      Returned False (No_cumples_los_requisitos [''level'']) None \<and>
    snd (navigate_next ex_service 1 30 ex_world3) = ex_world3"
    by blast
  then have "navigate_next ex_service 1 30 ex_world3 =
     (Returned False (No_cumples_los_requisitos [''level'']) None, ex_world3)"
    by (simp add: prod_eq_iff)
  moreover have "decisions ex_world3 = [ex_decision]"
    "map_option total_decisions_made (states ex_world3 1) = Some 1"
    by (simp_all add: ex_world3_eq ex_state3_def ex_state2_def)
  ultimately show ?thesis by simp
qed

text \<open>
  Claim C9. A cursor that is set is an entry of the visited list: each of the five
  operations keeps this true of every state, whatever its arguments and its outcome, and it
  holds in every reachable world. In a reachable world the lookup of the cursor in
  \<^verbatim>\<open>go_back\<close> finds an occurrence, so \<^verbatim>\<open>go_back\<close> raises nothing. (A null cursor
  only goes with an empty visited list, which \<^verbatim>\<open>go_back\<close> turns away before the
  lookup.)
\<close>

theorem cursor_stays_in_history:
  "(cursor_in_history w \<longrightarrow>
      cursor_in_history (snd (initialize_user_narrative sv uid w)) \<and>
      cursor_in_history (snd (start_story sv uid story_id w)) \<and>
      cursor_in_history (snd (make_choice sv uid choice_id now w)) \<and>
      cursor_in_history (snd (navigate_next sv uid now w)) \<and>
      cursor_in_history (snd (go_back sv uid now w))) \<and>
   (reachable sv w \<longrightarrow>
      cursor_in_history w \<and> (\<forall>e. fst (go_back sv uid now w) \<noteq> Raised e))"
proof (intro conjI impI)
  assume inv: "cursor_in_history w"
  show "cursor_in_history (snd (initialize_user_narrative sv uid w))"
    using inv initialize_user_narrative_writes by (rule writes_cursor_in_history(1) [rotated])
  show "cursor_in_history (snd (start_story sv uid story_id w))"
    using inv start_story_writes by (rule writes_cursor_in_history(1) [rotated])
  show "cursor_in_history (snd (make_choice sv uid choice_id now w))"
    using inv make_choice_writes by (rule writes_cursor_in_history(1) [rotated])
  show "cursor_in_history (snd (navigate_next sv uid now w))"
    using inv navigate_next_writes by (rule writes_cursor_in_history(1) [rotated])
  show "cursor_in_history (snd (go_back sv uid now w))"
    using inv go_back_writes by (rule writes_cursor_in_history(1) [rotated])
next
  assume r: "reachable sv w"
  from reachable_invariants [OF r] show "cursor_in_history w" by simp
  from reachable_invariants [OF r] show "\<forall>e. fst (go_back sv uid now w) \<noteq> Raised e"
    by (simp add: go_back_never_raises)
qed

theorem cursor_stays_in_history_witness:
  "cursor_in_history ex_world3 \<and> reachable ex_service ex_world3 \<and>
   cursor_in_history (snd (start_story ex_service 1 ''free'' ex_world3)) \<and>
   cursor_in_history (snd (make_choice ex_service 1 ''c1'' 30 ex_world3)) \<and>
   cursor_in_history (snd (navigate_next ex_service 1 30 ex_world3)) \<and>
   cursor_in_history ex_world4 \<and>
   (\<forall>e. fst (go_back ex_service 1 30 ex_world3) \<noteq> Raised e)"
proof -
  have inv: "cursor_in_history ex_world3"
    by (simp add: cursor_in_history_def cursor_tracked_def ex_world3_eq ex_state_fields)
  from cursor_stays_in_history [of ex_world3 ex_service 1 "''free''" "''c1''" 30]
    inv ex_reachable(4)
  show ?thesis by (simp add: ex_world4_def)
qed


text \<open>
  Claim C10. The visited list never holds an entry twice: each of the five operations
  keeps this true of every state, and it holds in every reachable world.
  \<^verbatim>\<open>start_story\<close> resets the list to the starting fragment alone; \<^verbatim>\<open>make_choice\<close> and
  \<^verbatim>\<open>navigate_next\<close> append the fragment they enter only if the list does not hold it
  anywhere, so entering a fragment again after going back leaves the list as it was;
  \<^verbatim>\<open>go_back\<close> never changes the list.
\<close>

theorem visited_list_has_no_duplicates:
  "(histories_distinct w \<longrightarrow>
      histories_distinct (snd (initialize_user_narrative sv uid w)) \<and>
      histories_distinct (snd (start_story sv uid story_id w)) \<and>
      histories_distinct (snd (make_choice sv uid choice_id now w)) \<and>
      histories_distinct (snd (navigate_next sv uid now w)) \<and>
      histories_distinct (snd (go_back sv uid now w))) \<and>
   (reachable sv w \<longrightarrow> histories_distinct w) \<and>
   (\<forall>m sf w'. start_story sv uid story_id w = (Returned True m (Some sf), w') \<longrightarrow>
      map_option fragments_visited (states w' uid) = Some [f_id sf]) \<and>
   (\<forall>st m nf w'. states w uid = Some st \<longrightarrow>
      make_choice sv uid choice_id now w = (Returned True m (Some nf), w') \<longrightarrow>
      map_option fragments_visited (states w' uid) =
        Some (if f_id nf \<in> set (fragments_visited st) then fragments_visited st
              else fragments_visited st @ [f_id nf])) \<and>
   (\<forall>st m nf w'. states w uid = Some st \<longrightarrow>
      navigate_next sv uid now w = (Returned True m (Some nf), w') \<longrightarrow>
      map_option fragments_visited (states w' uid) =
        Some (if f_id nf \<in> set (fragments_visited st) then fragments_visited st
              else fragments_visited st @ [f_id nf])) \<and>
   (\<forall>st. states w uid = Some st \<longrightarrow>
      map_option fragments_visited (states (snd (go_back sv uid now w)) uid) =
        Some (fragments_visited st))"
proof (intro conjI impI allI)
  assume inv: "histories_distinct w"
  show "histories_distinct (snd (initialize_user_narrative sv uid w))"
    using inv initialize_user_narrative_writes by (rule writes_cursor_in_history(3) [rotated])
  show "histories_distinct (snd (start_story sv uid story_id w))"
    using inv start_story_writes by (rule writes_cursor_in_history(3) [rotated])
  show "histories_distinct (snd (make_choice sv uid choice_id now w))"
    using inv make_choice_writes by (rule writes_cursor_in_history(3) [rotated])
  show "histories_distinct (snd (navigate_next sv uid now w))"
    using inv navigate_next_writes by (rule writes_cursor_in_history(3) [rotated])
  show "histories_distinct (snd (go_back sv uid now w))"
    using inv go_back_writes by (rule writes_cursor_in_history(3) [rotated])
next
  assume "reachable sv w"
  then show "histories_distinct w" by (simp add: reachable_invariants)
next
  fix m sf w'
  assume run: "start_story sv uid story_id w = (Returned True m (Some sf), w')"
  from start_story_shape [where w = w and uid = uid and sv = sv and sid = story_id, OF refl refl] run
  show "map_option fragments_visited (states w' uid) = Some [f_id sf]"
    by (elim disjE exE conjE) auto
next
  fix st m nf w'
  assume "states w uid = Some st"
    and "make_choice sv uid choice_id now w = (Returned True m (Some nf), w')"
  with make_choice_shape [of sv uid choice_id now w]
  show "map_option fragments_visited (states w' uid) =
        Some (if f_id nf \<in> set (fragments_visited st) then fragments_visited st
              else fragments_visited st @ [f_id nf])"
    by (elim disjE exE conjE) auto
next
  fix st m nf w'
  assume "states w uid = Some st"
    and "navigate_next sv uid now w = (Returned True m (Some nf), w')"
  with navigate_next_shape [of sv uid now w]
  show "map_option fragments_visited (states w' uid) =
        Some (if f_id nf \<in> set (fragments_visited st) then fragments_visited st
              else fragments_visited st @ [f_id nf])"
    by (elim disjE exE conjE) auto
next
  fix st
  assume "states w uid = Some st"
  with go_back_shape [of sv uid now w]
  show "map_option fragments_visited (states (snd (go_back sv uid now w)) uid) =
        Some (fragments_visited st)"
    by (elim disjE exE conjE) auto
qed

theorem visited_list_has_no_duplicates_witness:
  "histories_distinct ex_world4 \<and> reachable ex_service ex_world4 \<and>
   states ex_world4 1 = Some ex_state4 \<and>
   fragments_visited ex_state4 = [''f1'', ''f2'', ''f3''] \<and>
   navigate_next ex_service 1 40 ex_world4 =
     (Returned True Continuando_historia (Some ex_f3),
      snd (navigate_next ex_service 1 40 ex_world4)) \<and>
   histories_distinct (snd (navigate_next ex_service 1 40 ex_world4)) \<and>
   map_option fragments_visited (states (snd (navigate_next ex_service 1 40 ex_world4)) 1) =
     Some [''f1'', ''f2'', ''f3''] \<and>
   map_option fragments_visited (states (snd (go_back ex_service 1 40 ex_world4)) 1) =
     Some [''f1'', ''f2'', ''f3'']"
proof -
  have st: "states ex_world4 1 = Some ex_state4"
    by (simp add: ex_world4_eq)
  have inv: "histories_distinct ex_world4"
    by (simp add: histories_distinct_def ex_world4_eq ex_state_fields)
  have run: "navigate_next ex_service 1 40 ex_world4 =
     (Returned True Continuando_historia (Some ex_f3),
      snd (navigate_next ex_service 1 40 ex_world4))"
    by (simp add: ex_world4_eq ex_world3_eq ex_state1_def ex_state2_def ex_state3_def
        ex_state4_def op_defs ex_defs)
  have f3: "f_id ex_f3 \<in> set (fragments_visited ex_state4)"
    by (simp add: ex_state_fields ex_f3_def)
  note facts = visited_list_has_no_duplicates [of ex_world4 ex_service 1 "''free''" "''c1''" 40]
  from facts inv have kept: "histories_distinct (snd (navigate_next ex_service 1 40 ex_world4))"
    by blast
  from facts have "\<forall>st m nf w'. states ex_world4 1 = Some st \<longrightarrow>
      navigate_next ex_service 1 40 ex_world4 = (Returned True m (Some nf), w') \<longrightarrow>
      map_option fragments_visited (states w' 1) =
        Some (if f_id nf \<in> set (fragments_visited st) then fragments_visited st
              else fragments_visited st @ [f_id nf])"
    by blast
  with st run have "map_option fragments_visited
      (states (snd (navigate_next ex_service 1 40 ex_world4)) 1) =
        Some (if f_id ex_f3 \<in> set (fragments_visited ex_state4) then fragments_visited ex_state4
              else fragments_visited ex_state4 @ [f_id ex_f3])"
    by blast
  with f3 have again: "map_option fragments_visited
      (states (snd (navigate_next ex_service 1 40 ex_world4)) 1) = Some [''f1'', ''f2'', ''f3'']"
    by (simp add: ex_state_fields)
  from facts st have "map_option fragments_visited
      (states (snd (go_back ex_service 1 40 ex_world4)) 1) = Some (fragments_visited ex_state4)"
    by blast
  then have unchanged: "map_option fragments_visited
      (states (snd (go_back ex_service 1 40 ex_world4)) 1) = Some [''f1'', ''f2'', ''f3'']"
    by (simp add: ex_state_fields)
  from inv ex_reachable(5) st run kept again unchanged show ?thesis
    by (simp add: ex_state_fields)
qed

text \<open>
  Claim C6. In every reachable world, \<^verbatim>\<open>go_back\<close> fails, leaving the world as it was,
  when the user has no state, when the visited list has at most one entry, and when the
  cursor is at no position after the first of the visited list; so it fails right after a
  successful \<^verbatim>\<open>start_story\<close>. When it succeeds, the cursor was at a position \<open>i > 0\<close> of
  the visited list and is now the entry at position \<open>i - 1\<close>, and the visited list is the
  same list.
\<close>

theorem go_back_contract:
  assumes "reachable sv w"
  shows
    "(states w uid = None \<longrightarrow>
        go_back sv uid now w = (Returned False No_puedes_retroceder_mas None, w)) \<and>
     (\<forall>st. states w uid = Some st \<longrightarrow> length (fragments_visited st) \<le> 1 \<longrightarrow>
        go_back sv uid now w = (Returned False No_puedes_retroceder_mas None, w)) \<and>
     (\<forall>st. states w uid = Some st \<longrightarrow>
        (\<forall>i. 0 < i \<longrightarrow> i < length (fragments_visited st) \<longrightarrow>
           current_fragment_id st \<noteq> Some (fragments_visited st ! i)) \<longrightarrow>
        go_back sv uid now w = (Returned False No_puedes_retroceder_mas None, w) \<or>
        go_back sv uid now w = (Returned False Ya_estas_en_el_inicio None, w)) \<and>
     (\<forall>m f w1. start_story sv uid story_id w = (Returned True m f, w1) \<longrightarrow>
        go_back sv uid now w1 = (Returned False No_puedes_retroceder_mas None, w1)) \<and>
     (\<forall>m f w'. go_back sv uid now w = (Returned True m f, w') \<longrightarrow>
        (\<exists>st st' i. states w uid = Some st \<and> states w' uid = Some st' \<and>
           0 < i \<and> i < length (fragments_visited st) \<and>
           current_fragment_id st = Some (fragments_visited st ! i) \<and>
           current_fragment_id st' = Some (fragments_visited st ! (i - 1)) \<and>
           fragments_visited st' = fragments_visited st))"
proof (intro conjI allI impI)
  assume "states w uid = None"
  then show "go_back sv uid now w = (Returned False No_puedes_retroceder_mas None, w)"
    by (simp add: go_back_short_history)
next
  fix st
  assume "states w uid = Some st" "length (fragments_visited st) \<le> 1"
  then show "go_back sv uid now w = (Returned False No_puedes_retroceder_mas None, w)"
    by (simp add: go_back_short_history)
next
  fix st
  assume st: "states w uid = Some st"
    and first: "\<forall>i. 0 < i \<longrightarrow> i < length (fragments_visited st) \<longrightarrow>
           current_fragment_id st \<noteq> Some (fragments_visited st ! i)"
  from reachable_invariants [OF assms] st have ok: "cursor_tracked st" "history_anchored st"
    by (auto simp add: cursor_in_history_def histories_anchored_def)
  show "go_back sv uid now w = (Returned False No_puedes_retroceder_mas None, w) \<or>
        go_back sv uid now w = (Returned False Ya_estas_en_el_inicio None, w)"
  proof (cases "length (fragments_visited st) \<le> 1")
    case True
    with st show ?thesis by (simp add: go_back_short_history)
  next
    case False
    with ok(2) obtain c where c: "current_fragment_id st = Some c"
      by (cases "current_fragment_id st") (auto simp add: history_anchored_def)
    with ok(1) have "c \<in> set (fragments_visited st)"
      by (simp add: cursor_tracked_def)
    with first c have "index_of (fragments_visited st) c = Some 0"
      by (intro index_of_first) auto
    with st False c show ?thesis
      by (simp add: go_back_def get_user_state_def)
  qed
next
  fix m f w1
  assume run: "start_story sv uid story_id w = (Returned True m f, w1)"
  from start_story_shape [where w = w and uid = uid and sv = sv and sid = story_id, OF refl refl]
    run
  have "\<exists>st. states w1 uid = Some st \<and> length (fragments_visited st) \<le> 1"
    by (elim disjE exE conjE) auto
  then show "go_back sv uid now w1 = (Returned False No_puedes_retroceder_mas None, w1)"
    by (simp add: go_back_short_history)
next
  fix m f w'
  assume run: "go_back sv uid now w = (Returned True m f, w')"
  from go_back_shape [of sv uid now w] run
  show "\<exists>st st' i. states w uid = Some st \<and> states w' uid = Some st' \<and>
           0 < i \<and> i < length (fragments_visited st) \<and>
           current_fragment_id st = Some (fragments_visited st ! i) \<and>
           current_fragment_id st' = Some (fragments_visited st ! (i - 1)) \<and>
           fragments_visited st' = fragments_visited st"
  proof (elim disjE exE conjE)
    fix st c i and pf :: fragment
    assume st: "states w uid = Some st"
      and i: "index_of (fragments_visited st) c = Some i" "0 < i"
      and c: "current_fragment_id st = Some c"
      and new: "go_back sv uid now w =
        (Returned True Has_retrocedido (Some pf),
         w\<lparr>states := (states w)(uid \<mapsto>
              st\<lparr>current_fragment_id := Some (fragments_visited st ! (i - 1)),
                 current_chapter := f_chapter pf, last_interaction_at := now\<rparr>),
           trace := trace w @ [Commit]\<rparr>)"
    from index_of_Some [OF i(1)] have pos: "i < length (fragments_visited st)"
      "fragments_visited st ! i = c" by simp_all
    from new run have "states w' uid =
        Some (st\<lparr>current_fragment_id := Some (fragments_visited st ! (i - 1)),
                 current_chapter := f_chapter pf, last_interaction_at := now\<rparr>)"
      by auto
    with st i(2) c pos show ?thesis
      by (intro exI conjI) (assumption | simp)+
  qed auto
qed

theorem go_back_contract_witness:
  "reachable ex_service ex_world0 \<and> reachable ex_service ex_world3 \<and>
   start_story ex_service 1 ''free'' ex_world0 =
     (Returned True (Historia_iniciada ''Free'') (Some ex_f1), ex_world1) \<and>
   go_back ex_service 1 5 ex_world1 = (Returned False No_puedes_retroceder_mas None, ex_world1) \<and>
   go_back ex_service 1 30 ex_world3 = (Returned True Has_retrocedido (Some ex_f2), ex_world4) \<and>
   (\<exists>st st' i. states ex_world3 1 = Some st \<and> states ex_world4 1 = Some st' \<and>
      0 < i \<and> i < length (fragments_visited st) \<and>
      current_fragment_id st = Some (fragments_visited st ! i) \<and>
      current_fragment_id st' = Some (fragments_visited st ! (i - 1)) \<and>
      fragments_visited st' = fragments_visited st)"
proof -
  have start: "start_story ex_service 1 ''free'' ex_world0 =
     (Returned True (Historia_iniciada ''Free'') (Some ex_f1), ex_world1)"
    by (simp add: ex_world1_def prod_eq_iff ex_start)
  have gb: "go_back ex_service 1 30 ex_world3 =
     (Returned True Has_retrocedido (Some ex_f2), ex_world4)"
    by (simp add: ex_world4_def prod_eq_iff ex_go_back)
  from go_back_contract [OF ex_reachable(1), of 1 5 "''free''"] start
  have "go_back ex_service 1 5 ex_world1 =
      (Returned False No_puedes_retroceder_mas None, ex_world1)"
    by blast
  moreover from go_back_contract [OF ex_reachable(4), of 1 30 "''free''"] gb
  have "\<exists>st st' i. states ex_world3 1 = Some st \<and> states ex_world4 1 = Some st' \<and>
      0 < i \<and> i < length (fragments_visited st) \<and>
      current_fragment_id st = Some (fragments_visited st ! i) \<and>
      current_fragment_id st' = Some (fragments_visited st ! (i - 1)) \<and>
      fragments_visited st' = fragments_visited st"
    by blast
  ultimately show ?thesis
    using start gb ex_reachable(1) ex_reachable(4) by simp
qed

text \<open>
  Claim C2, as amended. After a successful \<^verbatim>\<open>start_story\<close>, one successful
  \<^verbatim>\<open>make_choice\<close> that leads to a fragment other than the starting fragment leaves the
  user with a decision counter one above the counter the user had before \<^verbatim>\<open>start_story\<close>
  (the column default for a state that \<^verbatim>\<open>start_story\<close> created; \<^verbatim>\<open>start_story\<close> does not
  reset the counter), with the visited list made of the starting fragment and the next
  fragment, in this order, with the cursor at the next fragment, and with one more row in the
  decision log, whose fragment is the starting fragment and whose choice is the chosen
  choice.
\<close>

theorem first_choice_after_start:
  assumes "start_story sv uid story_id w = (Returned True m1 (Some sf), w1)"
    and "make_choice sv uid choice_id now w1 = (Returned True m2 (Some nf), w2)"
    and "f_id nf \<noteq> f_id sf"
  shows "\<exists>st2 d. states w2 uid = Some st2 \<and>
           total_decisions_made st2 =
             (case states w uid of
                None \<Rightarrow> total_decisions_made (column_defaults sv)
              | Some st \<Rightarrow> total_decisions_made st) + 1 \<and>
           fragments_visited st2 = [f_id sf, f_id nf] \<and>
           current_fragment_id st2 = Some (f_id nf) \<and>
           decisions w2 = decisions w @ [d] \<and>
           d_user_id d = uid \<and> d_fragment_id d = Some (f_id sf) \<and> d_choice_id d = choice_id"
proof -
  from start_story_shape [where w = w and uid = uid and sv = sv and sid = story_id, OF refl refl]
    assms(1)
  obtain st1 where st1: "states w1 uid = Some st1" "decisions w1 = decisions w"
    "current_fragment_id st1 = Some (f_id sf)" "fragments_visited st1 = [f_id sf]"
    "total_decisions_made st1 =
       (case states w uid of
          None \<Rightarrow> total_decisions_made (column_defaults sv)
        | Some st \<Rightarrow> total_decisions_made st)"
    by (elim disjE exE conjE) (auto simp add: new_user_state_fields split: option.splits)
  from make_choice_shape [of sv uid choice_id now w1] assms(2)
  show ?thesis
  proof (elim disjE exE conjE)
    fix st cf ch nf' st' d snap
    assume st: "states w1 uid = Some st"
      and run: "make_choice sv uid choice_id now w1 =
        (Returned True Decision_registrada (Some nf'),
         w1\<lparr>states := (states w1)(uid \<mapsto> st'), decisions := decisions w1 @ [d],
            trace := trace w1 @ pre_commit_events uid ch nf' snap @
              [Commit, RecordFragmentVisit (f_id nf'), RecordChoiceMetric (Some (f_id nf')) choice_id,
               GiveNarrativePoints uid (NARRATIVE_POINTS sv ''decision_made'')]\<rparr>)"
      and st': "current_fragment_id st' = Some (f_id nf')"
        "fragments_visited st' =
           (if f_id nf' \<in> set (fragments_visited st) then fragments_visited st
            else fragments_visited st @ [f_id nf'])"
        "total_decisions_made st' = total_decisions_made st + 1"
      and d: "d_user_id d = uid" "d_fragment_id d = current_fragment_id st" "d_choice_id d = choice_id"
    from st st1(1) have same: "st = st1" by simp
    from run assms(2) have nf: "nf' = nf"
      and w2: "states w2 uid = Some st'" "decisions w2 = decisions w1 @ [d]"
      by auto
    from st' d same st1 nf w2 assms(3) show ?thesis
      by (intro exI [of _ st'] exI [of _ d]) simp
  qed auto
qed

theorem first_choice_after_start_witness:
  "start_story ex_service 1 ''free'' ex_world0 =
     (Returned True (Historia_iniciada ''Free'') (Some ex_f1), ex_world1) \<and>
   make_choice ex_service 1 ''c1'' 10 ex_world1 =
     (Returned True Decision_registrada (Some ex_f2), ex_world2) \<and>
   f_id ex_f2 \<noteq> f_id ex_f1 \<and>
   (\<exists>st2 d. states ex_world2 1 = Some st2 \<and> total_decisions_made st2 = 1 \<and>
      fragments_visited st2 = [''f1'', ''f2''] \<and> current_fragment_id st2 = Some ''f2'' \<and>
      decisions ex_world2 = [d] \<and>
      d_user_id d = 1 \<and> d_fragment_id d = Some ''f1'' \<and> d_choice_id d = ''c1'')"
proof -
  have start: "start_story ex_service 1 ''free'' ex_world0 =
     (Returned True (Historia_iniciada ''Free'') (Some ex_f1), ex_world1)"
    by (simp add: ex_world1_def prod_eq_iff ex_start)
  have choose: "make_choice ex_service 1 ''c1'' 10 ex_world1 =
     (Returned True Decision_registrada (Some ex_f2), ex_world2)"
    by (simp add: ex_world2_def prod_eq_iff ex_choice)
  have other: "f_id ex_f2 \<noteq> f_id ex_f1"
    by (simp add: ex_f1_def ex_f2_def)
  from first_choice_after_start [OF start choose other] start choose other show ?thesis
    by (simp add: ex_world0_def ex_service_def ex_f1_def ex_f2_def)
qed

theorem first_choice_after_start_counterexample:
  "start_story ex_service 1 ''free'' ex_world2 =
     (Returned True (Historia_iniciada ''Free'') (Some ex_f1), ex_world2r) \<and>
   f_type ex_f1 = ''decision'' \<and>
   fst (make_choice ex_service 1 ''c1'' 40 ex_world2r) =
     Returned True Decision_registrada (Some ex_f2) \<and>
   f_id ex_f2 \<noteq> f_id ex_f1 \<and>
   map_option total_decisions_made
     (states (snd (make_choice ex_service 1 ''c1'' 40 ex_world2r)) 1) = Some 2"
  by (simp add: ex_restart)
    (simp add: ex_world2r_state ex_state2_def ex_state1_def ex_world0_def op_defs ex_service_def
      ex_story_manager_def ex_c1_def ex_c2_def ex_c3_def ex_f1_def ex_f2_def ex_f3_def
      ex_f4_def)

text \<open>
  Claim C3, as amended. When \<^verbatim>\<open>start_story\<close> returns a failure, a state that the user
  already had is left as it was, and so is the whole world; no other user's state and no
  decision changes. When the user had no state, the failure for an unknown story creates
  none, while the two later failures (VIP needed, starting fragment missing) leave the
  state that the lazy initialisation has created and committed before those checks: the
  freshly initialised state, with no cursor and an empty visited list. Nothing of the
  transition itself is committed.
\<close>

theorem start_story_failure_commits_no_transition:
  assumes "start_story sv uid story_id w = (Returned False m f, w')"
  shows "f = None \<and> decisions w' = decisions w \<and>
         (\<forall>u. u \<noteq> uid \<longrightarrow> states w' u = states w u) \<and>
         (\<forall>st. states w uid = Some st \<longrightarrow> w' = w) \<and>
         (states w uid = None \<longrightarrow>
            (m = Historia_no_encontrada \<and> w' = w) \<or>
            ((m = Requiere_suscripcion_VIP \<or> m = Error_al_cargar_la_historia) \<and>
             w' = w\<lparr>states := (states w)(uid \<mapsto> new_user_state sv uid),
                    trace := trace w @ [Commit]\<rparr>))"
  using start_story_shape [where w = w and uid = uid and sv = sv and sid = story_id, OF refl refl]
    assms
  by (elim disjE exE conjE) (auto split: option.splits)

theorem start_story_failure_commits_no_transition_witness:
  "states ex_world1 1 = Some ex_state1 \<and>
   start_story ex_service 1 ''vip'' ex_world1 =
     (Returned False Requiere_suscripcion_VIP None, ex_world1) \<and>
   states ex_world1 2 = None \<and>
   start_story ex_service 2 ''nowhere'' ex_world1 =
     (Returned False Historia_no_encontrada None, ex_world1)"
proof -
  have st: "states ex_world1 1 = Some ex_state1" "states ex_world1 2 = None"
    by (simp_all add: ex_world1_eq)
  have denied: "start_story ex_service 1 ''vip'' ex_world1 =
     (Returned False Requiere_suscripcion_VIP None, snd (start_story ex_service 1 ''vip'' ex_world1))"
    by (simp add: ex_world1_eq op_defs ex_defs)
  have unknown: "start_story ex_service 2 ''nowhere'' ex_world1 =
     (Returned False Historia_no_encontrada None,
      snd (start_story ex_service 2 ''nowhere'' ex_world1))"
    by (simp add: op_defs ex_defs)
  from start_story_failure_commits_no_transition [OF denied] st(1)
  have "snd (start_story ex_service 1 ''vip'' ex_world1) = ex_world1"
    by blast
  moreover from start_story_failure_commits_no_transition [OF unknown] st(2)
  have "snd (start_story ex_service 2 ''nowhere'' ex_world1) = ex_world1"
    by blast
  ultimately show ?thesis
    using st denied unknown by simp
qed

theorem start_story_failure_commits_no_transition_counterexample:
  "states ex_world0 1 = None \<and>
   fst (start_story ex_service 1 ''vip'' ex_world0) =
     Returned False Requiere_suscripcion_VIP None \<and>
   states (snd (start_story ex_service 1 ''vip'' ex_world0)) 1 =
     Some (new_user_state ex_service 1) \<and>
   trace ex_world0 = [] \<and>
   trace (snd (start_story ex_service 1 ''vip'' ex_world0)) = [Commit]"
  by (simp add: start_story_def initialize_user_narrative_def get_user_state_def commit_def
      Let_def ex_service_def ex_story_manager_def ex_world0_def)

text \<open>
  Claim C8, at the input where the code departs from it: user 2 has no \<^verbatim>\<open>User\<close> row and
  asks for the story "vip", which needs the VIP role. \<^verbatim>\<open>start_story\<close> reads
  \<^verbatim>\<open>user.role\<close> of the missing row and raises \<^verbatim>\<open>AttributeError\<close>, after the lazy
  initialisation has committed a fresh state for user 2; it returns no result tuple.
\<close>

theorem start_story_vip_without_user_raises:
  "users ex_world0 2 = None \<and>
   map_option requires_vip (get_story (the_story_manager ex_service) ''vip'') = Some True \<and>
   fst (start_story ex_service 2 ''vip'' ex_world0) = Raised AttributeError \<and>
   states (snd (start_story ex_service 2 ''vip'' ex_world0)) 2 =
     Some (new_user_state ex_service 2)"
  by (simp add: start_story_def initialize_user_narrative_def get_user_state_def commit_def
      Let_def ex_service_def ex_story_manager_def ex_world0_def)

text \<open>
  Claim C5, at the input where the code departs from it: user 1 is at \<open>f2\<close>, whose next
  fragment \<open>f3\<close> is a checkpoint. \<^verbatim>\<open>navigate_next\<close> succeeds and enters \<open>f3\<close>; the calls
  it makes are the commit, the visit metric and the points for reading, and no checkpoint
  is saved.
\<close>

theorem navigate_next_into_checkpoint_saves_nothing:
  "navigate_next ex_service 1 20 ex_world2 =
     (Returned True Continuando_historia (Some ex_f3), ex_world3) \<and>
   f_type ex_f3 = ''checkpoint'' \<and>
   trace ex_world3 =
     trace ex_world2 @ [Commit, RecordFragmentVisit ''f3'', GiveNarrativePoints 1 1] \<and>
   filter is_checkpoint_save (trace ex_world3) = []"
  by (simp add: ex_navigate ex_world3_eq ex_f3_def) (simp add: ex_world2_eq)

text \<open>
  Claim C4, as amended. In \<^verbatim>\<open>start_story\<close>, \<^verbatim>\<open>make_choice\<close> and \<^verbatim>\<open>navigate_next\<close>, the
  fragment-visit metric, the choice metric and the fixed points of the transition
  (\<^verbatim>\<open>NARRATIVE_POINTS\<close> "fragment_read" or "decision_made") are attempted after the commit of
  the transition, in this order, and nothing is attempted after a failure. The calls made
  before the commit are no metrics: they are the points of the choice's effects, forwarded
  to the points collaborator first of all, then the checkpoint save, then the rewards of
  the fragment entered (points, achievements, lore).
\<close>

theorem metrics_follow_the_commit:
  "(start_story sv uid story_id w = (Returned ok m f, w') \<longrightarrow>
      (if ok
       then \<exists>sf pre. f = Some sf \<and> (pre = [] \<or> pre = [Commit]) \<and>
              trace w' = trace w @ pre @
                [Commit, RecordFragmentVisit (f_id sf),
                 GiveNarrativePoints uid (NARRATIVE_POINTS sv ''fragment_read'')]
       else trace w' = trace w \<or> trace w' = trace w @ [Commit])) \<and>
   (make_choice sv uid choice_id now w = (Returned ok m f, w') \<longrightarrow>
      (if ok
       then \<exists>st ch nf snap. states w uid = Some st \<and>
              validate_choice (the_story_manager sv) (active_story st) (current_fragment_id st)
                choice_id = Some ch \<and>
              f = Some nf \<and>
              trace w' = trace w @ pre_commit_events uid ch nf snap @
                [Commit, RecordFragmentVisit (f_id nf),
                 RecordChoiceMetric (Some (f_id nf)) choice_id,
                 GiveNarrativePoints uid (NARRATIVE_POINTS sv ''decision_made'')] \<and>
              (\<forall>e \<in> set (pre_commit_events uid ch nf snap). \<not> is_metric e \<and> e \<noteq> Commit) \<and>
              (\<forall>eff p. c_effects ch = Some eff \<longrightarrow> e_points eff = Some p \<longrightarrow>
                 (\<exists>rest. pre_commit_events uid ch nf snap = GiveNarrativePoints uid p # rest))
       else trace w' = trace w)) \<and>
   (navigate_next sv uid now w = (Returned ok m f, w') \<longrightarrow>
      (if ok
       then \<exists>nf pre. f = Some nf \<and>
              pre = (case f_rewards nf of Some rw \<Rightarrow> rewards_events uid rw | None \<Rightarrow> []) \<and>
              (\<forall>e \<in> set pre. \<not> is_metric e \<and> e \<noteq> Commit) \<and>
              trace w' = trace w @ pre @
                [Commit, RecordFragmentVisit (f_id nf),
                 GiveNarrativePoints uid (NARRATIVE_POINTS sv ''fragment_read'')]
       else trace w' = trace w))"
proof (intro conjI impI)
  assume run: "start_story sv uid story_id w = (Returned ok m f, w')"
  from start_story_shape [where w = w and uid = uid and sv = sv and sid = story_id, OF refl refl]
    run
  show "if ok
       then \<exists>sf pre. f = Some sf \<and> (pre = [] \<or> pre = [Commit]) \<and>
              trace w' = trace w @ pre @
                [Commit, RecordFragmentVisit (f_id sf),
                 GiveNarrativePoints uid (NARRATIVE_POINTS sv ''fragment_read'')]
       else trace w' = trace w \<or> trace w' = trace w @ [Commit]"
  proof (elim disjE exE conjE)
    fix story :: story and sf :: fragment and st' :: user_narrative_state
    assume new: "start_story sv uid story_id w =
          (Returned True (Historia_iniciada (s_title story)) (Some sf),
           (case states w uid of
              None \<Rightarrow> w\<lparr>states := (states w)(uid \<mapsto> new_user_state sv uid),
                        trace := trace w @ [Commit]\<rparr>
            | Some s \<Rightarrow> w)
           \<lparr>states := (states (case states w uid of
              None \<Rightarrow> w\<lparr>states := (states w)(uid \<mapsto> new_user_state sv uid),
                        trace := trace w @ [Commit]\<rparr>
            | Some s \<Rightarrow> w))(uid \<mapsto> st'),
              trace := trace (case states w uid of
              None \<Rightarrow> w\<lparr>states := (states w)(uid \<mapsto> new_user_state sv uid),
                        trace := trace w @ [Commit]\<rparr>
            | Some s \<Rightarrow> w) @ [Commit, RecordFragmentVisit (f_id sf),
                GiveNarrativePoints uid (NARRATIVE_POINTS sv ''fragment_read'')]\<rparr>)"
    from new run have res: "ok" "f = Some sf"
      "trace w' = trace w @ (case states w uid of None \<Rightarrow> [Commit] | Some s \<Rightarrow> []) @
         [Commit, RecordFragmentVisit (f_id sf),
          GiveNarrativePoints uid (NARRATIVE_POINTS sv ''fragment_read'')]"
      by (auto split: option.splits)
    have "\<exists>sf pre. f = Some sf \<and> (pre = [] \<or> pre = [Commit]) \<and>
              trace w' = trace w @ pre @
                [Commit, RecordFragmentVisit (f_id sf),
                 GiveNarrativePoints uid (NARRATIVE_POINTS sv ''fragment_read'')]"
      using res(2,3)
      by (intro exI [of _ sf] exI [of _ "case states w uid of None \<Rightarrow> [Commit] | Some s \<Rightarrow> []"])
        (simp split: option.splits)
    with res(1) show ?thesis by simp
  qed (auto split: option.splits)
next
  assume run: "make_choice sv uid choice_id now w = (Returned ok m f, w')"
  from make_choice_shape [of sv uid choice_id now w] run
  show "if ok
       then \<exists>st ch nf snap. states w uid = Some st \<and>
              validate_choice (the_story_manager sv) (active_story st) (current_fragment_id st)
                choice_id = Some ch \<and>
              f = Some nf \<and>
              trace w' = trace w @ pre_commit_events uid ch nf snap @
                [Commit, RecordFragmentVisit (f_id nf),
                 RecordChoiceMetric (Some (f_id nf)) choice_id,
                 GiveNarrativePoints uid (NARRATIVE_POINTS sv ''decision_made'')] \<and>
              (\<forall>e \<in> set (pre_commit_events uid ch nf snap). \<not> is_metric e \<and> e \<noteq> Commit) \<and>
              (\<forall>eff p. c_effects ch = Some eff \<longrightarrow> e_points eff = Some p \<longrightarrow>
                 (\<exists>rest. pre_commit_events uid ch nf snap = GiveNarrativePoints uid p # rest))
       else trace w' = trace w"
  proof (elim disjE exE conjE)
    fix st and cf :: fragment and ch and nf :: fragment and st' :: user_narrative_state
      and d :: user_decision and snap
    assume st: "states w uid = Some st"
      and ch: "validate_choice (the_story_manager sv) (active_story st)
          (current_fragment_id st) choice_id = Some ch"
      and new: "make_choice sv uid choice_id now w =
        (Returned True Decision_registrada (Some nf),
         w\<lparr>states := (states w)(uid \<mapsto> st'), decisions := decisions w @ [d],
           trace := trace w @ pre_commit_events uid ch nf snap @
             [Commit, RecordFragmentVisit (f_id nf), RecordChoiceMetric (Some (f_id nf)) choice_id,
              GiveNarrativePoints uid (NARRATIVE_POINTS sv ''decision_made'')]\<rparr>)"
    from new run have res: "ok" "f = Some nf"
      "trace w' = trace w @ pre_commit_events uid ch nf snap @
             [Commit, RecordFragmentVisit (f_id nf), RecordChoiceMetric (Some (f_id nf)) choice_id,
              GiveNarrativePoints uid (NARRATIVE_POINTS sv ''decision_made'')]"
      by auto
    have "\<exists>st ch nf snap. states w uid = Some st \<and>
              validate_choice (the_story_manager sv) (active_story st) (current_fragment_id st)
                choice_id = Some ch \<and>
              f = Some nf \<and>
              trace w' = trace w @ pre_commit_events uid ch nf snap @
                [Commit, RecordFragmentVisit (f_id nf),
                 RecordChoiceMetric (Some (f_id nf)) choice_id,
                 GiveNarrativePoints uid (NARRATIVE_POINTS sv ''decision_made'')] \<and>
              (\<forall>e \<in> set (pre_commit_events uid ch nf snap). \<not> is_metric e \<and> e \<noteq> Commit) \<and>
              (\<forall>eff p. c_effects ch = Some eff \<longrightarrow> e_points eff = Some p \<longrightarrow>
                 (\<exists>rest. pre_commit_events uid ch nf snap = GiveNarrativePoints uid p # rest))"
      using st ch res(2,3) pre_commit_events_kinds [of _ uid ch nf snap]
        pre_commit_events_points [of ch _ _ uid nf snap]
      by (intro exI [of _ st] exI [of _ ch] exI [of _ nf] exI [of _ snap]) blast
    with res(1) show ?thesis by simp
  qed auto
next
  assume run: "navigate_next sv uid now w = (Returned ok m f, w')"
  from navigate_next_shape [of sv uid now w] run
  show "if ok
       then \<exists>nf pre. f = Some nf \<and>
              pre = (case f_rewards nf of Some rw \<Rightarrow> rewards_events uid rw | None \<Rightarrow> []) \<and>
              (\<forall>e \<in> set pre. \<not> is_metric e \<and> e \<noteq> Commit) \<and>
              trace w' = trace w @ pre @
                [Commit, RecordFragmentVisit (f_id nf),
                 GiveNarrativePoints uid (NARRATIVE_POINTS sv ''fragment_read'')]
       else trace w' = trace w"
  proof (elim disjE exE conjE)
    fix st :: user_narrative_state and cf :: fragment and nf :: fragment
      and st' :: user_narrative_state
    assume new: "navigate_next sv uid now w =
        (Returned True Continuando_historia (Some nf),
         w\<lparr>states := (states w)(uid \<mapsto> st'),
           trace := trace w @
             (case f_rewards nf of Some rw \<Rightarrow> rewards_events uid rw | None \<Rightarrow> []) @
             [Commit, RecordFragmentVisit (f_id nf),
              GiveNarrativePoints uid (NARRATIVE_POINTS sv ''fragment_read'')]\<rparr>)"
    from new run have res: "ok" "f = Some nf"
      "trace w' = trace w @
             (case f_rewards nf of Some rw \<Rightarrow> rewards_events uid rw | None \<Rightarrow> []) @
             [Commit, RecordFragmentVisit (f_id nf),
              GiveNarrativePoints uid (NARRATIVE_POINTS sv ''fragment_read'')]"
      by auto
    have kinds: "\<forall>e \<in> set (case f_rewards nf of Some rw \<Rightarrow> rewards_events uid rw | None \<Rightarrow> []).
        \<not> is_metric e \<and> e \<noteq> Commit"
      by (auto dest: rewards_events_kinds split: option.splits)
    have "\<exists>nf pre. f = Some nf \<and>
              pre = (case f_rewards nf of Some rw \<Rightarrow> rewards_events uid rw | None \<Rightarrow> []) \<and>
              (\<forall>e \<in> set pre. \<not> is_metric e \<and> e \<noteq> Commit) \<and>
              trace w' = trace w @ pre @
                [Commit, RecordFragmentVisit (f_id nf),
                 GiveNarrativePoints uid (NARRATIVE_POINTS sv ''fragment_read'')]"
      using res(2,3) kinds
      by (intro exI [of _ nf]
          exI [of _ "case f_rewards nf of Some rw \<Rightarrow> rewards_events uid rw | None \<Rightarrow> []"])
        blast
    with res(1) show ?thesis by simp
  qed auto
qed

theorem metrics_follow_the_commit_witness:
  "start_story ex_service 1 ''free'' ex_world0 =
     (Returned True (Historia_iniciada ''Free'') (Some ex_f1), ex_world1) \<and>
   (\<exists>sf pre. Some ex_f1 = Some sf \<and> (pre = [] \<or> pre = [Commit]) \<and>
      trace ex_world1 = trace ex_world0 @ pre @
        [Commit, RecordFragmentVisit (f_id sf),
         GiveNarrativePoints 1 (NARRATIVE_POINTS ex_service ''fragment_read'')]) \<and>
   make_choice ex_service 1 ''c1'' 10 ex_world1 =
     (Returned True Decision_registrada (Some ex_f2), ex_world2) \<and>
   (\<exists>snap rest. trace ex_world2 = trace ex_world1 @ pre_commit_events 1 ex_c1 ex_f2 snap @
        [Commit, RecordFragmentVisit ''f2'', RecordChoiceMetric (Some ''f2'') ''c1'',
         GiveNarrativePoints 1 2] \<and>
      pre_commit_events 1 ex_c1 ex_f2 snap = GiveNarrativePoints 1 5 # rest) \<and>
   navigate_next ex_service 1 20 ex_world2 =
     (Returned True Continuando_historia (Some ex_f3), ex_world3) \<and>
   trace ex_world3 = trace ex_world2 @
     [Commit, RecordFragmentVisit ''f3'', GiveNarrativePoints 1 1]"
proof -
  have start: "start_story ex_service 1 ''free'' ex_world0 =
     (Returned True (Historia_iniciada ''Free'') (Some ex_f1), ex_world1)"
    by (simp add: ex_world1_def prod_eq_iff ex_start)
  have choose: "make_choice ex_service 1 ''c1'' 10 ex_world1 =
     (Returned True Decision_registrada (Some ex_f2), ex_world2)"
    by (simp add: ex_world2_def prod_eq_iff ex_choice)
  have nav: "navigate_next ex_service 1 20 ex_world2 =
     (Returned True Continuando_historia (Some ex_f3), ex_world3)"
    by (simp add: ex_world3_def prod_eq_iff ex_navigate)
  from metrics_follow_the_commit [THEN conjunct1, THEN mp, OF start]
  have a: "\<exists>sf pre. Some ex_f1 = Some sf \<and> (pre = [] \<or> pre = [Commit]) \<and>
      trace ex_world1 = trace ex_world0 @ pre @
        [Commit, RecordFragmentVisit (f_id sf),
         GiveNarrativePoints 1 (NARRATIVE_POINTS ex_service ''fragment_read'')]"
    by simp
  from metrics_follow_the_commit [THEN conjunct2, THEN conjunct1, THEN mp, OF choose]
  obtain st ch nf snap where c: "states ex_world1 1 = Some st"
    "validate_choice (the_story_manager ex_service) (active_story st) (current_fragment_id st)
       ''c1'' = Some ch"
    "Some ex_f2 = Some nf"
    "trace ex_world2 = trace ex_world1 @ pre_commit_events 1 ch nf snap @
       [Commit, RecordFragmentVisit (f_id nf), RecordChoiceMetric (Some (f_id nf)) ''c1'',
        GiveNarrativePoints 1 (NARRATIVE_POINTS ex_service ''decision_made'')]"
    "\<forall>eff p. c_effects ch = Some eff \<longrightarrow> e_points eff = Some p \<longrightarrow>
       (\<exists>rest. pre_commit_events 1 ch nf snap = GiveNarrativePoints 1 p # rest)"
    by auto
  from c(1) have "st = ex_state1" by (simp add: ex_world1_eq)
  with c(2) have ch: "ch = ex_c1"
    by (simp add: ex_state1_def new_user_state_def ex_service_def ex_story_manager_def)
  from c(3) have nf: "nf = ex_f2" by simp
  have "e_points \<lparr>e_relationships = None, e_story_flags = None, e_items = None,
      e_points = Some 5\<rparr> = Some 5" by simp
  with c(5) ch nf obtain rest where rest: "pre_commit_events 1 ex_c1 ex_f2 snap =
      GiveNarrativePoints 1 5 # rest"
    by (auto simp add: ex_c1_def)
  have vals: "f_id ex_f2 = ''f2''" "NARRATIVE_POINTS ex_service ''decision_made'' = 2"
    by (simp_all add: ex_f2_def ex_service_def)
  from c(4) ch nf have "trace ex_world2 = trace ex_world1 @ pre_commit_events 1 ex_c1 ex_f2 snap @
        [Commit, RecordFragmentVisit ''f2'', RecordChoiceMetric (Some ''f2'') ''c1'',
         GiveNarrativePoints 1 2]"
    by (simp only: vals)
  with rest have b: "\<exists>snap rest.
      trace ex_world2 = trace ex_world1 @ pre_commit_events 1 ex_c1 ex_f2 snap @
        [Commit, RecordFragmentVisit ''f2'', RecordChoiceMetric (Some ''f2'') ''c1'',
         GiveNarrativePoints 1 2] \<and>
      pre_commit_events 1 ex_c1 ex_f2 snap = GiveNarrativePoints 1 5 # rest"
    by blast
  from metrics_follow_the_commit [THEN conjunct2, THEN conjunct2, THEN mp, OF nav]
  have "\<exists>nf pre. Some ex_f3 = Some nf \<and>
      pre = (case f_rewards nf of Some rw \<Rightarrow> rewards_events 1 rw | None \<Rightarrow> []) \<and>
      (\<forall>e \<in> set pre. \<not> is_metric e \<and> e \<noteq> Commit) \<and>
      trace ex_world3 = trace ex_world2 @ pre @
        [Commit, RecordFragmentVisit (f_id nf),
         GiveNarrativePoints 1 (NARRATIVE_POINTS ex_service ''fragment_read'')]"
    by simp
  then have d: "trace ex_world3 = trace ex_world2 @
     [Commit, RecordFragmentVisit ''f3'', GiveNarrativePoints 1 1]"
    by (auto simp add: ex_f3_def ex_service_def)
  from start a choose b nav d show ?thesis by blast
qed

theorem metrics_follow_the_commit_counterexample:
  "states ex_world1 1 = Some ex_state1 \<and>
   validate_choice (the_story_manager ex_service) (active_story ex_state1)
     (current_fragment_id ex_state1) ''c1'' = Some ex_c1 \<and>
   c_effects ex_c1 =
     Some \<lparr>e_relationships = None, e_story_flags = None, e_items = None, e_points = Some 5\<rparr> \<and>
   make_choice ex_service 1 ''c1'' 10 ex_world1 =
     (Returned True Decision_registrada (Some ex_f2), ex_world2) \<and>
   trace ex_world2 = trace ex_world1 @
     [GiveNarrativePoints 1 5, Commit, RecordFragmentVisit ''f2'',
      RecordChoiceMetric (Some ''f2'') ''c1'', GiveNarrativePoints 1 2]"
  by (simp add: ex_world2_def prod_eq_iff ex_choice)
    (simp add: ex_world1_eq ex_state1_def new_user_state_def ex_service_def
      ex_story_manager_def ex_c1_def)

section \<open>Further properties\<close>

text \<open>
  The checkpoint save is made by \<^verbatim>\<open>make_choice\<close> only. A successful \<^verbatim>\<open>make_choice\<close>
  saves a checkpoint exactly once, before its commit, when the fragment it enters has the
  type "checkpoint", and never otherwise; \<^verbatim>\<open>navigate_next\<close> saves none, whatever the
  fragment it enters.
\<close>

theorem checkpoint_saved_by_make_choice_only:
  "(make_choice sv uid choice_id now w = (Returned True m (Some nf), w') \<longrightarrow>
      (\<exists>pre post. trace w' = trace w @ pre @ Commit # post \<and>
         Commit \<notin> set pre \<and> Commit \<notin> set post \<and>
         length (filter is_checkpoint_save pre) = (if f_type nf = ''checkpoint'' then 1 else 0) \<and>
         filter is_checkpoint_save post = [])) \<and>
   filter is_checkpoint_save (trace (snd (navigate_next sv uid now w))) =
     filter is_checkpoint_save (trace w)"
proof (intro conjI impI)
  assume run: "make_choice sv uid choice_id now w = (Returned True m (Some nf), w')"
  from make_choice_shape [of sv uid choice_id now w] run
  show "\<exists>pre post. trace w' = trace w @ pre @ Commit # post \<and>
         Commit \<notin> set pre \<and> Commit \<notin> set post \<and>
         length (filter is_checkpoint_save pre) = (if f_type nf = ''checkpoint'' then 1 else 0) \<and>
         filter is_checkpoint_save post = []"
  proof (elim disjE exE conjE)
    fix st :: user_narrative_state and cf :: fragment and ch and nf' :: fragment
      and st' :: user_narrative_state and d :: user_decision and snap
    assume new: "make_choice sv uid choice_id now w =
        (Returned True Decision_registrada (Some nf'),
         w\<lparr>states := (states w)(uid \<mapsto> st'), decisions := decisions w @ [d],
           trace := trace w @ pre_commit_events uid ch nf' snap @
             [Commit, RecordFragmentVisit (f_id nf'), RecordChoiceMetric (Some (f_id nf')) choice_id,
              GiveNarrativePoints uid (NARRATIVE_POINTS sv ''decision_made'')]\<rparr>)"
    from new run have nf: "nf' = nf" and tr: "trace w' = trace w @ pre_commit_events uid ch nf snap @
        Commit # [RecordFragmentVisit (f_id nf), RecordChoiceMetric (Some (f_id nf)) choice_id,
              GiveNarrativePoints uid (NARRATIVE_POINTS sv ''decision_made'')]"
      by auto
    have "Commit \<notin> set (pre_commit_events uid ch nf snap)"
      using pre_commit_events_kinds [of Commit uid ch nf snap] by blast
    with tr pre_commit_events_saves [of uid ch nf snap] show ?thesis
      by (intro exI [of _ "pre_commit_events uid ch nf snap"]
          exI [of _ "[RecordFragmentVisit (f_id nf), RecordChoiceMetric (Some (f_id nf)) choice_id,
              GiveNarrativePoints uid (NARRATIVE_POINTS sv ''decision_made'')]"]) simp
  qed auto
next
  from navigate_next_shape [of sv uid now w]
  show "filter is_checkpoint_save (trace (snd (navigate_next sv uid now w))) =
     filter is_checkpoint_save (trace w)"
    by (elim disjE exE conjE) (auto simp add: rewards_events_saves split: option.splits)
qed

theorem checkpoint_saved_by_make_choice_only_witness:
  "make_choice ex_service 1 ''c3'' 10 ex_world1 =
     (Returned True Decision_registrada (Some ex_f3),
      snd (make_choice ex_service 1 ''c3'' 10 ex_world1)) \<and>
   f_type ex_f3 = ''checkpoint'' \<and>
   (\<exists>pre post. trace (snd (make_choice ex_service 1 ''c3'' 10 ex_world1)) =
        trace ex_world1 @ pre @ Commit # post \<and>
      Commit \<notin> set pre \<and> Commit \<notin> set post \<and>
      length (filter is_checkpoint_save pre) = 1 \<and> filter is_checkpoint_save post = [])"
proof -
  have run: "make_choice ex_service 1 ''c3'' 10 ex_world1 =
     (Returned True Decision_registrada (Some ex_f3),
      snd (make_choice ex_service 1 ''c3'' 10 ex_world1))"
    by (simp add: ex_world1_eq ex_state1_def op_defs ex_defs)
  have kind: "f_type ex_f3 = ''checkpoint''"
    by (simp add: ex_f3_def)
  from checkpoint_saved_by_make_choice_only [THEN conjunct1, THEN mp, OF run] kind
  have "\<exists>pre post. trace (snd (make_choice ex_service 1 ''c3'' 10 ex_world1)) =
        trace ex_world1 @ pre @ Commit # post \<and>
      Commit \<notin> set pre \<and> Commit \<notin> set post \<and>
      length (filter is_checkpoint_save pre) = 1 \<and> filter is_checkpoint_save post = []"
    by simp
  with run kind show ?thesis by blast
qed

text \<open>
  \<^verbatim>\<open>start_story\<close> raises in one case only: the story exists and needs the VIP role, and
  the user has no \<^verbatim>\<open>User\<close> row. The exception is \<^verbatim>\<open>AttributeError\<close>.
\<close>

theorem start_story_raises_iff:
  "fst (start_story sv uid story_id w) = Raised e \<longleftrightarrow>
     e = AttributeError \<and>
     (\<exists>story. get_story (the_story_manager sv) story_id = Some story \<and> requires_vip story) \<and>
     users w uid = None"
  by (auto simp add: start_story_def initialize_user_narrative_def get_user_state_def
      collab_defs Let_def split: option.splits if_splits bool.splits)

end
